theory Spec2Isabelle
  imports Complex_Main
begin

section \<open>Spring animations (internal/ui/animations/spring.go)\<close>

text \<open>
  A \<open>float64\<close> is modelled by the real number it denotes (NaN and the infinities are
  left out), and a literal by the decimal number it is written as. The functions below
  only assign, compare, negate and subtract such values. Comparison and negation are
  exact on \<open>float64\<close>; subtraction rounds its result, so the subtraction of
  \<open>isSettled\<close> is a parameter \<open>fsub\<close> of the model, of which nothing is assumed.
  The physics step is \<open>harmonica.Spring.Update\<close>, a function of an external library;
  it is the parameter \<open>hUpdate\<close>, as the library's constructor is the parameter
  \<open>hNewSpring\<close>. The type \<open>'h\<close> stands for \<open>harmonica.Spring\<close> (the precomputed
  coefficients).
\<close>

record SpringConfig =
  FPS :: int
  Stiffness :: real
  Damping :: real

record 'h Spring =
  spring :: 'h
  target :: real
  current :: real
  velocity :: real
  active :: bool

definition DefaultSpringConfig :: SpringConfig where
  "DefaultSpringConfig = \<lparr>FPS = 60, Stiffness = 7, Damping = 15 / 100\<rparr>"

definition FastSpringConfig :: SpringConfig where
  "FastSpringConfig = \<lparr>FPS = 60, Stiffness = 12, Damping = 25 / 100\<rparr>"

definition SlowSpringConfig :: SpringConfig where
  "SlowSpringConfig = \<lparr>FPS = 60, Stiffness = 4, Damping = 1 / 10\<rparr>"

definition NewSpring :: "(int \<Rightarrow> real \<Rightarrow> real \<Rightarrow> 'h) \<Rightarrow> SpringConfig \<Rightarrow> 'h Spring" where
  "NewSpring hNewSpring config =
     \<lparr>spring = hNewSpring (FPS config) (Stiffness config) (Damping config),
      target = 0, current = 0, velocity = 0, active = False\<rparr>"

definition SetTarget :: "real \<Rightarrow> 'h Spring \<Rightarrow> 'h Spring" where
  "SetTarget tgt s = s\<lparr>target := tgt, active := True\<rparr>"

definition SetCurrent :: "real \<Rightarrow> 'h Spring \<Rightarrow> 'h Spring" where
  "SetCurrent v s = s\<lparr>current := v, target := v, velocity := 0, active := False\<rparr>"

text \<open>\<open>isSettled\<close> negates each quantity when it is negative, then compares.\<close>

definition isSettled :: "(real \<Rightarrow> real \<Rightarrow> real) \<Rightarrow> real \<Rightarrow> real \<Rightarrow> real \<Rightarrow> real \<Rightarrow> bool" where
  "isSettled fsub cur vel tgt threshold =
     (let positionDelta = fsub cur tgt;
          positionDelta = (if positionDelta < 0 then - positionDelta else positionDelta);
          vel = (if vel < 0 then - vel else vel)
      in positionDelta < threshold \<and> vel < threshold)"

text \<open>
  \<open>Update\<close> mutates the receiver and returns a flag; the model returns the flag and
  the new spring.
\<close>

definition Update ::
  "(real \<Rightarrow> real \<Rightarrow> real) \<Rightarrow> ('h \<Rightarrow> real \<Rightarrow> real \<Rightarrow> real \<Rightarrow> real \<times> real) \<Rightarrow> 'h Spring
   \<Rightarrow> bool \<times> 'h Spring" where
  "Update fsub hUpdate s =
     (if \<not> active s then (False, s)
      else
        (let (c, v) = hUpdate (spring s) (current s) (velocity s) (target s);
             s1 = s\<lparr>current := c, velocity := v\<rparr>
         in if isSettled fsub (current s1) (velocity s1) (target s1) (1 / 2)
            then (False, s1\<lparr>current := target s1, velocity := 0, active := False\<rparr>)
            else (True, s1)))"

definition Value :: "'h Spring \<Rightarrow> real" where
  "Value s = current s"

definition IsActive :: "'h Spring \<Rightarrow> bool" where
  "IsActive s = active s"

text \<open>\<open>n\<close> consecutive calls of \<open>Update\<close> on the same spring, keeping the last state.\<close>

fun Updates ::
  "(real \<Rightarrow> real \<Rightarrow> real) \<Rightarrow> ('h \<Rightarrow> real \<Rightarrow> real \<Rightarrow> real \<Rightarrow> real \<times> real) \<Rightarrow> nat \<Rightarrow> 'h Spring
   \<Rightarrow> 'h Spring" where
  "Updates fsub hUpdate 0 s = s"
| "Updates fsub hUpdate (Suc n) s = Updates fsub hUpdate n (snd (Update fsub hUpdate s))"

text \<open>
  Concrete values to run a spring on: a constructor that keeps no coefficients, exact
  subtraction, a step that moves the position three quarters of the way to the target
  and halves the velocity, and a step that pushes position and velocity up by one.
\<close>

definition noCoefficients :: "int \<Rightarrow> real \<Rightarrow> real \<Rightarrow> unit" where
  "noCoefficients fps stiffness damping = ()"

definition exactSub :: "real \<Rightarrow> real \<Rightarrow> real" where
  "exactSub a b = a - b"

definition approachStep :: "unit \<Rightarrow> real \<Rightarrow> real \<Rightarrow> real \<Rightarrow> real \<times> real" where
  "approachStep h pos vel tgt = (pos + (tgt - pos) * 3 / 4, vel / 2)"

definition pushStep :: "unit \<Rightarrow> real \<Rightarrow> real \<Rightarrow> real \<Rightarrow> real \<times> real" where
  "pushStep h pos vel tgt = (pos + 1, vel + 1)"

section \<open>Themes (internal/theme/theme.go, charm.go, loader.go)\<close>

text \<open>
  \<open>lipgloss.TerminalColor\<close> is an interface of an external library. Its values are
  the nil interface and the library's implementations; \<open>Color\<close> is a Go string.
\<close>

datatype TerminalColor =
    NilColor
  | NoColor
  | Color string
  | ANSIColor nat
  | AdaptiveColor string string
  | CompleteColor string string string
  | CompleteAdaptiveColor string string string string string string

record Colors =
  Primary :: TerminalColor
  Secondary :: TerminalColor
  Background :: TerminalColor
  Surface :: TerminalColor
  Overlay :: TerminalColor
  Text :: TerminalColor
  TextMuted :: TerminalColor
  TextDim :: TerminalColor
  Success :: TerminalColor
  Warning :: TerminalColor
  Error :: TerminalColor
  Info :: TerminalColor
  Accent1 :: TerminalColor
  Accent2 :: TerminalColor
  Accent3 :: TerminalColor

text \<open>
  \<open>Styles\<close> is a struct of \<open>lipgloss.Style\<close> values computed by \<open>BuildStyles\<close> from a
  palette with the external library. The type \<open>'st\<close> stands for \<open>Styles\<close> and
  \<open>BuildStyles\<close> is a parameter wherever the code calls it.
\<close>

record 'st Theme =
  ID :: string
  Name :: string
  Description :: string
  Author :: string
  Version :: string
  Colors :: Colors
  Styles :: 'st

text \<open>
  The package variables \<open>Current\<close> and \<open>Available\<close>. \<open>Available\<close> maps an identifier
  to a registered theme.
\<close>

record 'st registry =
  Current :: "'st Theme"
  Available :: "string \<rightharpoonup> 'st Theme"

definition SetTheme :: "string \<Rightarrow> 'st registry \<Rightarrow> bool \<times> 'st registry" where
  "SetTheme name st =
     (case Available st name of
        Some theme \<Rightarrow> (True, st\<lparr>Current := theme\<rparr>)
      | None \<Rightarrow> (False, st))"

definition Register :: "'st Theme \<Rightarrow> 'st registry \<Rightarrow> 'st registry" where
  "Register t st = st\<lparr>Available := (Available st)(ID t \<mapsto> t)\<rparr>"

subsection \<open>The built-in themes (charm.go)\<close>

definition CharmPurple :: TerminalColor where "CharmPurple = Color ''#7D56F4''"
definition CharmPink :: TerminalColor where "CharmPink = Color ''212''"
definition CharmViolet :: TerminalColor where "CharmViolet = Color ''99''"
definition CharmTeal :: TerminalColor where "CharmTeal = Color ''35''"
definition CharmIndigo :: TerminalColor where "CharmIndigo = Color ''63''"

text \<open>
  Each built-in theme is given as it is after the first three statements of \<open>init\<close>,
  which fill in \<open>Styles\<close> from the theme's own colors.
\<close>

definition CharmDarkColors :: Colors where
  "CharmDarkColors =
     \<lparr>Primary = CharmPink, Secondary = CharmPurple,
      Background = Color ''#1a1a2e'', Surface = Color ''#252538'', Overlay = Color ''#2f2f45'',
      Text = Color ''#FAFAFA'', TextMuted = Color ''#a9b1d6'', TextDim = Color ''#565f89'',
      Success = Color ''#04B575'', Warning = Color ''#ffb86c'', Error = Color ''#ff6b6b'',
      Info = Color ''#7dcfff'',
      Accent1 = CharmPink, Accent2 = CharmPurple, Accent3 = CharmTeal\<rparr>"

definition CharmDark :: "(Colors \<Rightarrow> 'st) \<Rightarrow> 'st Theme" where
  "CharmDark BuildStyles =
     \<lparr>ID = ''charm-dark'', Name = ''Charm Dark'',
      Description = ''The signature Charm aesthetic - glamorous terminal vibes'',
      Author = ''AgentUI Team'', Version = ''1.0.0'',
      Colors = CharmDarkColors, Styles = BuildStyles CharmDarkColors\<rparr>"

definition CharmLightColors :: Colors where
  "CharmLightColors =
     \<lparr>Primary = Color ''#7D56F4'', Secondary = Color ''#d946ef'',
      Background = Color ''#faf4ed'', Surface = Color ''#f2e9e1'', Overlay = Color ''#e8ddd5'',
      Text = Color ''#1a1a2e'', TextMuted = Color ''#6e6a86'', TextDim = Color ''#9893a5'',
      Success = Color ''#059669'', Warning = Color ''#d97706'', Error = Color ''#dc2626'',
      Info = Color ''#0284c7'',
      Accent1 = Color ''#d946ef'', Accent2 = Color ''#7D56F4'', Accent3 = Color ''#059669''\<rparr>"

definition CharmLight :: "(Colors \<Rightarrow> 'st) \<Rightarrow> 'st Theme" where
  "CharmLight BuildStyles =
     \<lparr>ID = ''charm-light'', Name = ''Charm Light'',
      Description = ''The signature Charm aesthetic - light mode'',
      Author = ''AgentUI Team'', Version = ''1.0.0'',
      Colors = CharmLightColors, Styles = BuildStyles CharmLightColors\<rparr>"

definition CharmAutoColors :: Colors where
  "CharmAutoColors =
     \<lparr>Primary = AdaptiveColor ''#7D56F4'' ''212'',
      Secondary = AdaptiveColor ''#d946ef'' ''#7D56F4'',
      Background = AdaptiveColor ''#faf4ed'' ''#1a1a2e'',
      Surface = AdaptiveColor ''#f2e9e1'' ''#252538'',
      Overlay = AdaptiveColor ''#e8ddd5'' ''#2f2f45'',
      Text = AdaptiveColor ''#1a1a2e'' ''#FAFAFA'',
      TextMuted = AdaptiveColor ''#6e6a86'' ''#a9b1d6'',
      TextDim = AdaptiveColor ''#9893a5'' ''#565f89'',
      Success = AdaptiveColor ''#059669'' ''#04B575'',
      Warning = AdaptiveColor ''#d97706'' ''#ffb86c'',
      Error = AdaptiveColor ''#dc2626'' ''#ff6b6b'',
      Info = AdaptiveColor ''#0284c7'' ''#7dcfff'',
      Accent1 = AdaptiveColor ''#d946ef'' ''212'',
      Accent2 = AdaptiveColor ''#7D56F4'' ''#7D56F4'',
      Accent3 = AdaptiveColor ''#059669'' ''35''\<rparr>"

definition CharmAuto :: "(Colors \<Rightarrow> 'st) \<Rightarrow> 'st Theme" where
  "CharmAuto BuildStyles =
     \<lparr>ID = ''charm-auto'', Name = ''Charm Auto'',
      Description = ''Automatically adapts to terminal light/dark mode'',
      Author = ''AgentUI Team'', Version = ''1.0.0'',
      Colors = CharmAutoColors, Styles = BuildStyles CharmAutoColors\<rparr>"

text \<open>
  The package's \<open>init\<close>, run on the registry \<open>st\<close> as it is before: it registers the
  three themes and makes \<open>CharmDark\<close> the current one.
\<close>

definition init :: "(Colors \<Rightarrow> 'st) \<Rightarrow> 'st registry \<Rightarrow> 'st registry" where
  "init BuildStyles st =
     (let st = Register (CharmDark BuildStyles) st;
          st = Register (CharmLight BuildStyles) st;
          st = Register (CharmAuto BuildStyles) st
      in st\<lparr>Current := CharmDark BuildStyles\<rparr>)"

subsection \<open>Loading and exporting themes (loader.go)\<close>

record ColorsJSON =
  cj_Primary :: string
  cj_Secondary :: string
  cj_Background :: string
  cj_Surface :: string
  cj_Overlay :: string
  cj_Text :: string
  cj_TextMuted :: string
  cj_TextDim :: string
  cj_Success :: string
  cj_Warning :: string
  cj_Error :: string
  cj_Info :: string
  cj_Accent1 :: string
  cj_Accent2 :: string
  cj_Accent3 :: string

record ThemeJSON =
  tj_ID :: string
  tj_Name :: string
  tj_Description :: string
  tj_Author :: string
  tj_Version :: string
  tj_Colors :: ColorsJSON

text \<open>
  Go errors as values. \<open>OSError\<close> and \<open>JSONError\<close> are the errors of the operating
  system and of \<open>encoding/json\<close>; the others are the messages that \<open>fmt.Errorf\<close> builds
  in loader.go, each wrapping its cause.
\<close>

datatype error =
    OSError string
  | JSONError
  | FailedToReadThemeFile error
  | FailedToParseThemeJSON error
  | FailedToLoadThemeFrom string error
  | UnknownTheme string

text \<open>
  The process environment and the file system, as far as the loader reads them:
  \<open>os.Getenv\<close> returns the empty string for an unset variable, \<open>os.Stat\<close> succeeds on
  every existing path, \<open>os.ReadFile\<close> only on a readable regular file.
\<close>

datatype fs_node = RegularFile string | Directory

record OS =
  Environ :: "string \<rightharpoonup> string"
  Files :: "string \<rightharpoonup> fs_node"

definition Getenv :: "OS \<Rightarrow> string \<Rightarrow> string" where
  "Getenv os key = (case Environ os key of None \<Rightarrow> [] | Some v \<Rightarrow> v)"

definition Stat :: "OS \<Rightarrow> string \<Rightarrow> error option" where
  "Stat os path = (case Files os path of None \<Rightarrow> Some (OSError path) | Some _ \<Rightarrow> None)"

definition ReadFile :: "OS \<Rightarrow> string \<Rightarrow> error + string" where
  "ReadFile os path =
     (case Files os path of
        Some (RegularFile data) \<Rightarrow> Inr data
      | _ \<Rightarrow> Inl (OSError path))"

definition parseColor :: "string \<Rightarrow> TerminalColor" where
  "parseColor s = (if s = [] then Color [] else Color s)"

definition ToTheme :: "(Colors \<Rightarrow> 'st) \<Rightarrow> ThemeJSON \<Rightarrow> error + 'st Theme" where
  "ToTheme BuildStyles tj =
     (let colors =
        \<lparr>Primary = parseColor (cj_Primary (tj_Colors tj)),
         Secondary = parseColor (cj_Secondary (tj_Colors tj)),
         Background = parseColor (cj_Background (tj_Colors tj)),
         Surface = parseColor (cj_Surface (tj_Colors tj)),
         Overlay = parseColor (cj_Overlay (tj_Colors tj)),
         Text = parseColor (cj_Text (tj_Colors tj)),
         TextMuted = parseColor (cj_TextMuted (tj_Colors tj)),
         TextDim = parseColor (cj_TextDim (tj_Colors tj)),
         Success = parseColor (cj_Success (tj_Colors tj)),
         Warning = parseColor (cj_Warning (tj_Colors tj)),
         Error = parseColor (cj_Error (tj_Colors tj)),
         Info = parseColor (cj_Info (tj_Colors tj)),
         Accent1 = parseColor (cj_Accent1 (tj_Colors tj)),
         Accent2 = parseColor (cj_Accent2 (tj_Colors tj)),
         Accent3 = parseColor (cj_Accent3 (tj_Colors tj))\<rparr>
      in Inr \<lparr>ID = tj_ID tj, Name = tj_Name tj, Description = tj_Description tj,
              Author = tj_Author tj, Version = tj_Version tj,
              Colors = colors, Styles = BuildStyles colors\<rparr>)"

text \<open>
  \<open>json.Unmarshal\<close> into a \<open>ThemeJSON\<close> and \<open>json.MarshalIndent\<close> of one belong to
  the standard library; they are the parameters \<open>unmarshal\<close> and \<open>marshalIndent\<close>. The
  type \<open>'d\<close> is that of the data they exchange: the bytes of a file where a theme is
  loaded from a file, a JSON document in the model of the library given further down.
\<close>

definition LoadThemeFromJSON ::
  "('d \<Rightarrow> error + ThemeJSON) \<Rightarrow> (Colors \<Rightarrow> 'st) \<Rightarrow> 'd \<Rightarrow> error + 'st Theme" where
  "LoadThemeFromJSON unmarshal BuildStyles data =
     (case unmarshal data of
        Inl err \<Rightarrow> Inl (FailedToParseThemeJSON err)
      | Inr tj \<Rightarrow> ToTheme BuildStyles tj)"

definition LoadThemeFromFile ::
  "OS \<Rightarrow> (string \<Rightarrow> error + ThemeJSON) \<Rightarrow> (Colors \<Rightarrow> 'st) \<Rightarrow> string \<Rightarrow> error + 'st Theme" where
  "LoadThemeFromFile os unmarshal BuildStyles path =
     (case ReadFile os path of
        Inl err \<Rightarrow> Inl (FailedToReadThemeFile err)
      | Inr data \<Rightarrow> LoadThemeFromJSON unmarshal BuildStyles data)"

definition LoadThemeFromEnv ::
  "OS \<Rightarrow> (string \<Rightarrow> error + ThemeJSON) \<Rightarrow> (Colors \<Rightarrow> 'st) \<Rightarrow> 'st registry
   \<Rightarrow> error option \<times> 'st registry" where
  "LoadThemeFromEnv os unmarshal BuildStyles st =
     (let themePath = Getenv os ''AGENTUI_THEME'' in
      if themePath = [] then (None, st)
      else if Available st themePath \<noteq> None then (None, snd (SetTheme themePath st))
      else if Stat os themePath = None then
        (case LoadThemeFromFile os unmarshal BuildStyles themePath of
           Inl err \<Rightarrow> (Some (FailedToLoadThemeFrom themePath err), st)
         | Inr theme \<Rightarrow> (None, snd (SetTheme (ID theme) (Register theme st))))
      else (Some (UnknownTheme themePath), st))"

definition colorToString :: "TerminalColor \<Rightarrow> string" where
  "colorToString c =
     (case c of
        NilColor \<Rightarrow> []
      | Color color \<Rightarrow> color
      | _ \<Rightarrow> [])"

text \<open>
  \<open>exportedJSON t\<close> is the struct literal \<open>tj\<close> that \<open>ExportThemeToJSON\<close> builds
  before it calls \<open>json.MarshalIndent\<close>.
\<close>

definition exportedJSON :: "'st Theme \<Rightarrow> ThemeJSON" where
  "exportedJSON t =
     \<lparr>tj_ID = ID t, tj_Name = Name t, tj_Description = Description t,
      tj_Author = Author t, tj_Version = Version t,
      tj_Colors =
        \<lparr>cj_Primary = colorToString (Primary (Colors t)),
         cj_Secondary = colorToString (Secondary (Colors t)),
         cj_Background = colorToString (Background (Colors t)),
         cj_Surface = colorToString (Surface (Colors t)),
         cj_Overlay = colorToString (Overlay (Colors t)),
         cj_Text = colorToString (Text (Colors t)),
         cj_TextMuted = colorToString (TextMuted (Colors t)),
         cj_TextDim = colorToString (TextDim (Colors t)),
         cj_Success = colorToString (Success (Colors t)),
         cj_Warning = colorToString (Warning (Colors t)),
         cj_Error = colorToString (Error (Colors t)),
         cj_Info = colorToString (Info (Colors t)),
         cj_Accent1 = colorToString (Accent1 (Colors t)),
         cj_Accent2 = colorToString (Accent2 (Colors t)),
         cj_Accent3 = colorToString (Accent3 (Colors t))\<rparr>\<rparr>"

definition ExportThemeToJSON :: "(ThemeJSON \<Rightarrow> error + 'd) \<Rightarrow> 'st Theme \<Rightarrow> error + 'd" where
  "ExportThemeToJSON marshalIndent t = (let tj = exportedJSON t in marshalIndent tj)"

text \<open>A color is simple when it is a \<open>lipgloss.Color\<close> string value.\<close>

definition isSimpleColor :: "TerminalColor \<Rightarrow> bool" where
  "isSimpleColor c = (case c of Color _ \<Rightarrow> True | _ \<Rightarrow> False)"

definition allSimpleColors :: "Colors \<Rightarrow> bool" where
  "allSimpleColors c =
     (isSimpleColor (Primary c) \<and> isSimpleColor (Secondary c) \<and> isSimpleColor (Background c)
      \<and> isSimpleColor (Surface c) \<and> isSimpleColor (Overlay c) \<and> isSimpleColor (Text c)
      \<and> isSimpleColor (TextMuted c) \<and> isSimpleColor (TextDim c) \<and> isSimpleColor (Success c)
      \<and> isSimpleColor (Warning c) \<and> isSimpleColor (Error c) \<and> isSimpleColor (Info c)
      \<and> isSimpleColor (Accent1 c) \<and> isSimpleColor (Accent2 c) \<and> isSimpleColor (Accent3 c))"

subsection \<open>Concrete values used to run the theme functions\<close>

text \<open>
  The package variables before \<open>init\<close>: \<open>Current\<close> is the zero \<open>Theme\<close> (empty
  strings, nil colors) and \<open>Available\<close> is the empty map.
\<close>

definition zeroColors :: Colors where
  "zeroColors =
     \<lparr>Primary = NilColor, Secondary = NilColor, Background = NilColor, Surface = NilColor,
      Overlay = NilColor, Text = NilColor, TextMuted = NilColor, TextDim = NilColor,
      Success = NilColor, Warning = NilColor, Error = NilColor, Info = NilColor,
      Accent1 = NilColor, Accent2 = NilColor, Accent3 = NilColor\<rparr>"

definition zeroRegistry :: "'st \<Rightarrow> 'st registry" where
  "zeroRegistry z =
     \<lparr>Current = \<lparr>ID = [], Name = [], Description = [], Author = [], Version = [],
                  Colors = zeroColors, Styles = z\<rparr>,
      Available = Map.empty\<rparr>"

text \<open>A stand-in for \<open>BuildStyles\<close> that keeps no style information.\<close>

definition noStyles :: "Colors \<Rightarrow> unit" where
  "noStyles c = ()"

definition startRegistry :: "unit registry" where
  "startRegistry = init noStyles (zeroRegistry ())"

text \<open>
  A file system with a directory \<open>/tmp\<close>, a file \<open>/tmp/night.json\<close> holding a theme
  and a file \<open>/tmp/notes.txt\<close> holding something else, and environments that set
  \<open>AGENTUI_THEME\<close> to a given value or leave it unset.
\<close>

definition exampleFiles :: "string \<rightharpoonup> fs_node" where
  "exampleFiles =
     [''/tmp'' \<mapsto> Directory,
      ''/tmp/night.json'' \<mapsto> RegularFile ''night'',
      ''/tmp/notes.txt'' \<mapsto> RegularFile ''to do'']"

definition envUnset :: OS where
  "envUnset = \<lparr>Environ = Map.empty, Files = exampleFiles\<rparr>"

definition envSet :: "string \<Rightarrow> OS" where
  "envSet v = \<lparr>Environ = [''AGENTUI_THEME'' \<mapsto> v], Files = exampleFiles\<rparr>"

definition nightJSON :: ThemeJSON where
  "nightJSON = (exportedJSON (CharmDark noStyles))\<lparr>tj_ID := ''night'', tj_Name := ''Night''\<rparr>"

text \<open>
  A stand-in for \<open>json.Unmarshal\<close> that accepts the content of \<open>/tmp/night.json\<close>
  and rejects every other input.
\<close>

definition exampleUnmarshal :: "string \<Rightarrow> error + ThemeJSON" where
  "exampleUnmarshal data = (if data = ''night'' then Inr nightJSON else Inl JSONError)"

definition nightTheme :: "unit Theme" where
  "nightTheme = (CharmDark noStyles)\<lparr>ID := ''night'', Name := ''Night''\<rparr>"

subsection \<open>The standard library's JSON encoding of a theme\<close>

text \<open>
  \<open>encoding/json\<close> and \<open>unicode/utf8\<close> belong to Go's standard library, not to the
  repository. For the round trip of a theme through \<open>ExportThemeToJSON\<close> and
  \<open>LoadThemeFromJSON\<close> they are modelled after their documentation. A Go string is a
  sequence of bytes; the encoder writes it as a JSON string coerced to valid UTF-8,
  replacing each invalid byte with the replacement character U+FFFD.
\<close>

definition byte :: "char \<Rightarrow> nat" where
  "byte c = of_char c"

definition isContinuation :: "char \<Rightarrow> bool" where
  "isContinuation c \<longleftrightarrow> 0x80 \<le> byte c \<and> byte c \<le> 0xBF"

text \<open>
  The range that UTF-8 accepts for the second byte of a sequence whose first byte is
  \<open>n\<close>: it excludes overlong forms, surrogates and code points above U+10FFFF.
\<close>

definition acceptsSecond :: "nat \<Rightarrow> char \<Rightarrow> bool" where
  "acceptsSecond n c \<longleftrightarrow>
     (if n = 0xE0 then 0xA0 else if n = 0xF0 then 0x90 else 0x80) \<le> byte c
     \<and> byte c \<le> (if n = 0xED then 0x9F else if n = 0xF4 then 0x8F else 0xBF)"

text \<open>
  The number of bytes of the UTF-8 sequence at the start of \<open>s\<close>, or 0 when \<open>s\<close> is
  empty or starts with a byte that begins no complete valid sequence (where
  \<open>utf8.DecodeRuneInString\<close> returns \<open>RuneError\<close> with width 1).
\<close>

definition runeWidth :: "string \<Rightarrow> nat" where
  "runeWidth s =
     (case s of
        [] \<Rightarrow> 0
      | b # bs \<Rightarrow>
          (let n = byte b in
           if n < 0x80 then 1
           else if 0xC2 \<le> n \<and> n \<le> 0xDF then
             (case bs of
                c1 # _ \<Rightarrow> if acceptsSecond n c1 then 2 else 0
              | _ \<Rightarrow> 0)
           else if 0xE0 \<le> n \<and> n \<le> 0xEF then
             (case bs of
                c1 # c2 # _ \<Rightarrow> if acceptsSecond n c1 \<and> isContinuation c2 then 3 else 0
              | _ \<Rightarrow> 0)
           else if 0xF0 \<le> n \<and> n \<le> 0xF4 then
             (case bs of
                c1 # c2 # c3 # _ \<Rightarrow>
                  if acceptsSecond n c1 \<and> isContinuation c2 \<and> isContinuation c3 then 4 else 0
              | _ \<Rightarrow> 0)
           else 0))"

text \<open>The UTF-8 encoding of U+FFFD.\<close>

definition replacementChar :: string where
  "replacementChar = [CHR 0xEF, CHR 0xBF, CHR 0xBD]"

text \<open>
  The string that the decoder reads back for a string the encoder wrote: valid
  sequences are kept, every other byte becomes U+FFFD.
\<close>

function toValidUTF8 :: "string \<Rightarrow> string" where
  "toValidUTF8 s =
     (if s = [] then []
      else if runeWidth s = 0 then replacementChar @ toValidUTF8 (tl s)
      else take (runeWidth s) s @ toValidUTF8 (drop (runeWidth s) s))"
  by pat_completeness auto
termination
  by (relation "measure length") auto

text \<open>\<open>utf8.ValidString\<close>: the string consists of valid sequences only.\<close>

function validUTF8 :: "string \<Rightarrow> bool" where
  "validUTF8 s =
     (if s = [] then True
      else if runeWidth s = 0 then False
      else validUTF8 (drop (runeWidth s) s))"
  by pat_completeness auto
termination
  by (relation "measure length") auto

declare toValidUTF8.simps [simp del] validUTF8.simps [simp del]

text \<open>
  A JSON document is kept as the tree of its values. Its text (quoting, escape
  sequences, the indentation that \<open>MarshalIndent\<close> adds) is left out: the decoder reads
  every escape the encoder writes back to the bytes it stands for. A number is kept as
  its literal.
\<close>

datatype json =
    JNull
  | JBool bool
  | JNumber string
  | JString string
  | JArray "json list"
  | JObject "(string \<times> json) list"

text \<open>
  Encoding follows the struct tags of \<open>ThemeJSON\<close> and \<open>ColorsJSON\<close>: each field is
  written under its tag, in the order of the struct, and a field tagged \<open>omitempty\<close>
  is left out when its string is empty. Encoding a struct of strings does not fail.
\<close>

definition omitempty :: "string \<Rightarrow> string \<Rightarrow> (string \<times> json) list" where
  "omitempty key s = (if s = [] then [] else [(key, JString (toValidUTF8 s))])"

definition marshalColors :: "ColorsJSON \<Rightarrow> json" where
  "marshalColors c =
     JObject
       [(''primary'', JString (toValidUTF8 (cj_Primary c))),
        (''secondary'', JString (toValidUTF8 (cj_Secondary c))),
        (''background'', JString (toValidUTF8 (cj_Background c))),
        (''surface'', JString (toValidUTF8 (cj_Surface c))),
        (''overlay'', JString (toValidUTF8 (cj_Overlay c))),
        (''text'', JString (toValidUTF8 (cj_Text c))),
        (''textMuted'', JString (toValidUTF8 (cj_TextMuted c))),
        (''textDim'', JString (toValidUTF8 (cj_TextDim c))),
        (''success'', JString (toValidUTF8 (cj_Success c))),
        (''warning'', JString (toValidUTF8 (cj_Warning c))),
        (''error'', JString (toValidUTF8 (cj_Error c))),
        (''info'', JString (toValidUTF8 (cj_Info c))),
        (''accent1'', JString (toValidUTF8 (cj_Accent1 c))),
        (''accent2'', JString (toValidUTF8 (cj_Accent2 c))),
        (''accent3'', JString (toValidUTF8 (cj_Accent3 c)))]"

definition json_MarshalIndent :: "ThemeJSON \<Rightarrow> error + json" where
  "json_MarshalIndent tj =
     Inr (JObject
       ([(''id'', JString (toValidUTF8 (tj_ID tj))),
         (''name'', JString (toValidUTF8 (tj_Name tj)))]
        @ omitempty ''description'' (tj_Description tj)
        @ omitempty ''author'' (tj_Author tj)
        @ omitempty ''version'' (tj_Version tj)
        @ [(''colors'', marshalColors (tj_Colors tj))]))"

text \<open>
  Decoding starts from the zero struct. A key that occurs more than once counts with
  its last value. A string field takes the value of a JSON string, keeps its zero
  value when its key is absent or \<open>null\<close>, and any other value under its key is an
  error. Keys are matched as they are written (the decoder's fallback to a match that
  ignores case is left out; the encoder writes the tags themselves).
\<close>

definition jsonField :: "(string \<times> json) list \<Rightarrow> string \<Rightarrow> json option" where
  "jsonField fs key = map_of (rev fs) key"

definition stringField :: "(string \<times> json) list \<Rightarrow> string \<Rightarrow> error + string" where
  "stringField fs key =
     (case jsonField fs key of
        None \<Rightarrow> Inr []
      | Some JNull \<Rightarrow> Inr []
      | Some (JString s) \<Rightarrow> Inr s
      | Some _ \<Rightarrow> Inl JSONError)"

text \<open>Sequencing: the first error ends the decoding.\<close>

definition andThen :: "error + 'a \<Rightarrow> ('a \<Rightarrow> error + 'b) \<Rightarrow> error + 'b" where
  "andThen r f = (case r of Inl e \<Rightarrow> Inl e | Inr v \<Rightarrow> f v)"

definition zeroColorsJSON :: ColorsJSON where
  "zeroColorsJSON =
     \<lparr>cj_Primary = [], cj_Secondary = [], cj_Background = [], cj_Surface = [], cj_Overlay = [],
      cj_Text = [], cj_TextMuted = [], cj_TextDim = [], cj_Success = [], cj_Warning = [],
      cj_Error = [], cj_Info = [], cj_Accent1 = [], cj_Accent2 = [], cj_Accent3 = []\<rparr>"

definition unmarshalColors :: "json option \<Rightarrow> error + ColorsJSON" where
  "unmarshalColors v =
     (case v of
        None \<Rightarrow> Inr zeroColorsJSON
      | Some JNull \<Rightarrow> Inr zeroColorsJSON
      | Some (JObject fs) \<Rightarrow>
          andThen (stringField fs ''primary'') (\<lambda>primary.
          andThen (stringField fs ''secondary'') (\<lambda>secondary.
          andThen (stringField fs ''background'') (\<lambda>background.
          andThen (stringField fs ''surface'') (\<lambda>surface.
          andThen (stringField fs ''overlay'') (\<lambda>overlay.
          andThen (stringField fs ''text'') (\<lambda>text.
          andThen (stringField fs ''textMuted'') (\<lambda>textMuted.
          andThen (stringField fs ''textDim'') (\<lambda>textDim.
          andThen (stringField fs ''success'') (\<lambda>success.
          andThen (stringField fs ''warning'') (\<lambda>warning.
          andThen (stringField fs ''error'') (\<lambda>err.
          andThen (stringField fs ''info'') (\<lambda>info.
          andThen (stringField fs ''accent1'') (\<lambda>accent1.
          andThen (stringField fs ''accent2'') (\<lambda>accent2.
          andThen (stringField fs ''accent3'') (\<lambda>accent3.
            Inr \<lparr>cj_Primary = primary, cj_Secondary = secondary, cj_Background = background,
                 cj_Surface = surface, cj_Overlay = overlay, cj_Text = text,
                 cj_TextMuted = textMuted, cj_TextDim = textDim, cj_Success = success,
                 cj_Warning = warning, cj_Error = err, cj_Info = info,
                 cj_Accent1 = accent1, cj_Accent2 = accent2, cj_Accent3 = accent3\<rparr>)))))))))))))))
      | Some _ \<Rightarrow> Inl JSONError)"

definition json_Unmarshal :: "json \<Rightarrow> error + ThemeJSON" where
  "json_Unmarshal doc =
     (case doc of
        JNull \<Rightarrow>
          Inr \<lparr>tj_ID = [], tj_Name = [], tj_Description = [], tj_Author = [], tj_Version = [],
               tj_Colors = zeroColorsJSON\<rparr>
      | JObject fs \<Rightarrow>
          andThen (stringField fs ''id'') (\<lambda>ident.
          andThen (stringField fs ''name'') (\<lambda>name.
          andThen (stringField fs ''description'') (\<lambda>description.
          andThen (stringField fs ''author'') (\<lambda>author.
          andThen (stringField fs ''version'') (\<lambda>version.
          andThen (unmarshalColors (jsonField fs ''colors'')) (\<lambda>colors.
            Inr \<lparr>tj_ID = ident, tj_Name = name, tj_Description = description,
                 tj_Author = author, tj_Version = version, tj_Colors = colors\<rparr>))))))
      | _ \<Rightarrow> Inl JSONError)"

text \<open>\<open>LoadThemeFromJSON(ExportThemeToJSON(t))\<close>, with the errors of both calls passed on.\<close>

definition exportThenLoad :: "(Colors \<Rightarrow> 'st) \<Rightarrow> 'st Theme \<Rightarrow> error + 'st Theme" where
  "exportThenLoad BuildStyles t =
     (case ExportThemeToJSON json_MarshalIndent t of
        Inl err \<Rightarrow> Inl err
      | Inr data \<Rightarrow> LoadThemeFromJSON json_Unmarshal BuildStyles data)"

text \<open>
  The strings of a theme that the export writes are all valid UTF-8: its five metadata
  strings and the strings of its fifteen colors.
\<close>

definition themeStringsValid :: "'st Theme \<Rightarrow> bool" where
  "themeStringsValid t =
     (validUTF8 (ID t) \<and> validUTF8 (Name t) \<and> validUTF8 (Description t)
      \<and> validUTF8 (Author t) \<and> validUTF8 (Version t)
      \<and> validUTF8 (colorToString (Primary (Colors t)))
      \<and> validUTF8 (colorToString (Secondary (Colors t)))
      \<and> validUTF8 (colorToString (Background (Colors t)))
      \<and> validUTF8 (colorToString (Surface (Colors t)))
      \<and> validUTF8 (colorToString (Overlay (Colors t)))
      \<and> validUTF8 (colorToString (Text (Colors t)))
      \<and> validUTF8 (colorToString (TextMuted (Colors t)))
      \<and> validUTF8 (colorToString (TextDim (Colors t)))
      \<and> validUTF8 (colorToString (Success (Colors t)))
      \<and> validUTF8 (colorToString (Warning (Colors t)))
      \<and> validUTF8 (colorToString (Error (Colors t)))
      \<and> validUTF8 (colorToString (Info (Colors t)))
      \<and> validUTF8 (colorToString (Accent1 (Colors t)))
      \<and> validUTF8 (colorToString (Accent2 (Colors t)))
      \<and> validUTF8 (colorToString (Accent3 (Colors t))))"

text \<open>
  A theme with simple colors whose identifier is the single byte \<open>0xFF\<close>, which is
  not valid UTF-8.
\<close>

definition binaryIdTheme :: "unit Theme" where
  "binaryIdTheme = nightTheme\<lparr>ID := [CHR 0xFF]\<rparr>"

section \<open>Request/reply correlation of the Transport Bridge\<close>

text \<open>
  Modelled from the spec: the Correlation Table and the Transport Bridge (spec sections
  3, 4.2, 4.3, 5 and 7) belong to the agent-side package, whose sources are not among
  the repository files at hand. The definitions of this section follow the spec's
  description of them. Concurrency is modelled by interleaving: each operation below is
  one atomic step, as the spec requires of removal ("atomic with lookup") and of
  "assign id, register, write". Time is a counter of elapsed units.
\<close>

text \<open>
  Modelled from the spec: what the caller of \<open>request\<close> can observe: a reply
  payload, or one of the errors \<open>Timeout\<close> and \<open>TransportClosed\<close>.
\<close>

datatype 'p outcome = Reply 'p | Timeout | TransportClosed

text \<open>
  Modelled from the spec: the Bridge's state. \<open>pending\<close> is the Correlation Table: it
  maps the identifier of each outstanding request to its \<open>PendingRequest\<close>, of which
  the deadline is kept; the caller's completion handle is represented by
  \<open>delivered\<close>, the list of outcomes handed to the caller of each identifier so
  far. \<open>nextId\<close> is the next identifier to assign, \<open>clock\<close> the current time and
  \<open>connected\<close> is false in the \<open>Disconnected\<close> state.
\<close>

record 'p bridge =
  pending :: "nat \<rightharpoonup> nat"
  delivered :: "nat \<Rightarrow> 'p outcome list"
  nextId :: nat
  clock :: nat
  connected :: bool

text \<open>Modelled from the spec: a freshly started Bridge, with nothing outstanding.\<close>

definition newBridge :: "'p bridge" where
  "newBridge = \<lparr>pending = Map.empty, delivered = (\<lambda>i. []), nextId = 0, clock = 0, connected = True\<rparr>"

text \<open>
  Modelled from the spec: \<open>register(id)\<close> creates the entry and fails if the
  identifier is already registered (a protocol violation, fatal to the request only).
\<close>

definition register :: "nat \<Rightarrow> nat \<Rightarrow> 'p bridge \<Rightarrow> 'p bridge option" where
  "register i deadline b =
     (case pending b i of
        Some _ \<Rightarrow> None
      | None \<Rightarrow> Some (b\<lparr>pending := (pending b)(i \<mapsto> deadline)\<rparr>))"

text \<open>
  Modelled from the spec: \<open>complete(id, result)\<close> resolves and removes the matching
  entry, and does nothing when there is none (a reply that arrives after a timeout is
  dropped).
\<close>

definition complete_entry :: "nat \<Rightarrow> 'p outcome \<Rightarrow> 'p bridge \<Rightarrow> 'p bridge" where
  "complete_entry i result b =
     (case pending b i of
        None \<Rightarrow> b
      | Some _ \<Rightarrow> b\<lparr>pending := (pending b)(i := None),
                    delivered := (delivered b)(i := delivered b i @ [result])\<rparr>)"

text \<open>
  Modelled from the spec: \<open>cancelAll(reason)\<close> completes every outstanding entry with
  the error and leaves the table empty.
\<close>

definition cancelAll :: "'p outcome \<Rightarrow> 'p bridge \<Rightarrow> 'p bridge" where
  "cancelAll reason b =
     b\<lparr>delivered := (\<lambda>i. case pending b i of
                             None \<Rightarrow> delivered b i
                           | Some _ \<Rightarrow> delivered b i @ [reason]),
       pending := Map.empty\<rparr>"

text \<open>
  Modelled from the spec: on timeout the entry is removed and \<open>request\<close> fails with
  \<open>Timeout\<close>. \<open>expire\<close> does so for every entry whose deadline the clock has
  passed.
\<close>

definition expire :: "'p bridge \<Rightarrow> 'p bridge" where
  "expire b =
     b\<lparr>delivered := (\<lambda>i. case pending b i of
                             None \<Rightarrow> delivered b i
                           | Some d \<Rightarrow> if d < clock b then delivered b i @ [Timeout]
                                       else delivered b i),
       pending := (\<lambda>i. case pending b i of
                           None \<Rightarrow> None
                         | Some d \<Rightarrow> if d < clock b then None else Some d)\<rparr>"

text \<open>
  Modelled from the spec: \<open>request(Message, timeout)\<close> assigns an identifier,
  registers it with its deadline and writes the line, as one atomic unit. In the
  \<open>Disconnected\<close> state nothing is sent (the caller is told \<open>TransportUnavailable\<close>).
  The written line is not part of the state: what the renderer answers, and when, is
  left open.
\<close>

definition request :: "nat \<Rightarrow> 'p bridge \<Rightarrow> 'p bridge" where
  "request timeout b =
     (if \<not> connected b then b
      else
        (case register (nextId b) (clock b + timeout) b of
           None \<Rightarrow> b\<lparr>nextId := Suc (nextId b)\<rparr>
         | Some b' \<Rightarrow> b'\<lparr>nextId := Suc (nextId b)\<rparr>))"

text \<open>
  Modelled from the spec: what can happen to a Bridge. A caller issues a request with
  a timeout; a reply line carrying an identifier and a payload arrives from the
  renderer; one unit of time elapses; the subprocess exits or reading fails, upon which
  the Bridge calls \<open>cancelAll\<close> and becomes \<open>Disconnected\<close>; a restart succeeds.
\<close>

datatype 'p event = Request nat | Incoming nat 'p | Elapse | Exit | Restart

text \<open>Modelled from the spec: the effect of one event on the Bridge.\<close>

fun step :: "'p event \<Rightarrow> 'p bridge \<Rightarrow> 'p bridge" where
  "step (Request timeout) b = request timeout b"
| "step (Incoming i p) b = complete_entry i (Reply p) b"
| "step Elapse b = expire (b\<lparr>clock := Suc (clock b)\<rparr>)"
| "step Exit b = (cancelAll TransportClosed b)\<lparr>connected := False\<rparr>"
| "step Restart b = b\<lparr>connected := True\<rparr>"

text \<open>Modelled from the spec: the effect of a sequence of events, one after the other.\<close>

fun run :: "'p event list \<Rightarrow> 'p bridge \<Rightarrow> 'p bridge" where
  "run [] b = b"
| "run (e # es) b = run es (step e b)"

text \<open>Modelled from the spec: the time that elapses during a sequence of events.\<close>

fun elapsed :: "'p event list \<Rightarrow> nat" where
  "elapsed [] = 0"
| "elapsed (Elapse # es) = Suc (elapsed es)"
| "elapsed (_ # es) = elapsed es"

text \<open>
  Modelled from the spec: the data-model invariant of section 3. An outstanding
  identifier has been issued, its caller has been handed nothing yet and its deadline
  has not passed; an identifier that was issued and is no longer outstanding has been
  completed once; an identifier not yet issued has neither an entry nor an outcome.
\<close>

definition bridge_inv :: "'p bridge \<Rightarrow> bool" where
  "bridge_inv b \<longleftrightarrow>
     (\<forall>i. case pending b i of
            Some d \<Rightarrow> i < nextId b \<and> delivered b i = [] \<and> clock b \<le> d
          | None \<Rightarrow> if i < nextId b then (\<exists>x. delivered b i = [x]) else delivered b i = [])"

text \<open>
  Modelled from the spec: two runs of a Bridge whose payloads are strings. Before the
  request under study, an earlier request was sent and answered. Afterwards, in the
  first run the renderer never answers in time and a reply comes in late; in the second
  the reply comes in and the renderer exits later.
\<close>

definition exampleHistory :: "string event list" where
  "exampleHistory = [Request 5, Incoming 0 ''ok'']"

text \<open>Modelled from the spec: the run in which the renderer answers too late.\<close>

definition exampleSilence :: "string event list" where
  "exampleSilence = [Elapse, Incoming 7 ''stray'', Elapse, Elapse, Incoming 1 ''late'']"

text \<open>Modelled from the spec: the run in which the renderer answers, then exits.\<close>

definition exampleAnswer :: "string event list" where
  "exampleAnswer = [Elapse, Incoming 1 ''yes'', Exit, Restart, Request 1]"

section \<open>Progress rendering\<close>

text \<open>
  Modelled from the spec: the progress View Handler (spec sections 4.5 and 8) is part
  of the renderer's view package, whose progress source is not among the repository
  files at hand. A progress payload carries a current value and a total.
\<close>

record progress_payload =
  pp_current :: int
  pp_total :: int

text \<open>
  Modelled from the spec: what the handler renders: an unbounded spinner for
  indeterminate progress, or a bar showing a value and the percentage it makes of the
  total.
\<close>

datatype progress_fragment = Indeterminate | Bar int int

text \<open>Modelled from the spec: the failure that rendering a progress payload must avoid.\<close>

datatype render_error = DivisionByZero

text \<open>Modelled from the spec: progress values are clamped to the interval from 0 to the total.\<close>

definition clampProgress :: "int \<Rightarrow> int \<Rightarrow> int" where
  "clampProgress v tot = max 0 (min v tot)"

text \<open>
  Modelled from the spec: the percentage of a value. Integer division by zero is a
  run-time failure of the program, so it is an error value here.
\<close>

definition percentage :: "int \<Rightarrow> int \<Rightarrow> render_error + int" where
  "percentage v tot = (if tot = 0 then Inl DivisionByZero else Inr (v * 100 div tot))"

text \<open>
  Modelled from the spec: a total of 0 is treated as indeterminate progress; otherwise
  the clamped value and its percentage are shown.
\<close>

definition renderProgress :: "progress_payload \<Rightarrow> render_error + progress_fragment" where
  "renderProgress p =
     (if pp_total p = 0 then Inr Indeterminate
      else
        (let v = clampProgress (pp_current p) (pp_total p) in
         case percentage v (pp_total p) of
           Inl e \<Rightarrow> Inl e
         | Inr pc \<Rightarrow> Inr (Bar v pc)))"

section \<open>Properties of the spring\<close>

lemma isSettled_abs:
  "isSettled fsub cur vel tgt threshold \<longleftrightarrow> \<bar>fsub cur tgt\<bar> < threshold \<and> \<bar>vel\<bar> < threshold"
  by (simp add: isSettled_def Let_def abs_if)

lemma Update_inactive: "\<not> active s \<Longrightarrow> Update fsub hUpdate s = (False, s)"
  by (simp add: Update_def)

lemma Updates_inactive: "\<not> active s \<Longrightarrow> Updates fsub hUpdate n s = s"
  by (induction n) (simp_all add: Update_inactive)

text \<open>
  C4. One \<open>Update\<close> of an active spring takes the step of the spring dynamics, which
  gives a new position \<open>c\<close> and a new velocity \<open>v\<close>. When the distance of \<open>c\<close>
  from the target, as \<open>isSettled\<close> computes it, and the absolute value of \<open>v\<close> are
  both strictly below \<open>0.5\<close>, the position becomes the target exactly, the velocity
  becomes 0, the spring becomes inactive and \<open>Update\<close> returns false. Otherwise the
  stepped position and velocity are kept, the spring stays active and \<open>Update\<close>
  returns true.
\<close>

theorem Update_settling:
  assumes "IsActive s"
    and "hUpdate (spring s) (current s) (velocity s) (target s) = (c, v)"
  shows "Update fsub hUpdate s =
     (if \<bar>fsub c (target s)\<bar> < 1 / 2 \<and> \<bar>v\<bar> < 1 / 2
      then (False, s\<lparr>current := target s, velocity := 0, active := False\<rparr>)
      else (True, s\<lparr>current := c, velocity := v\<rparr>))"
  using assms by (simp add: Update_def IsActive_def isSettled_abs Let_def)

theorem Update_settling_witness:
  "IsActive (SetTarget 10 (SetCurrent 9 (NewSpring noCoefficients DefaultSpringConfig)))
   \<and> Update exactSub approachStep
        (SetTarget 10 (SetCurrent 9 (NewSpring noCoefficients DefaultSpringConfig)))
     = (False, \<lparr>spring = (), target = 10, current = 10, velocity = 0, active = False\<rparr>)
   \<and> IsActive (SetTarget 10 (SetCurrent 5 (NewSpring noCoefficients DefaultSpringConfig)))
   \<and> Update exactSub approachStep
        (SetTarget 10 (SetCurrent 5 (NewSpring noCoefficients DefaultSpringConfig)))
     = (True, \<lparr>spring = (), target = 10, current = 35 / 4, velocity = 0, active = True\<rparr>)"
proof -
  let ?s = "SetTarget 10 (SetCurrent 9 (NewSpring noCoefficients DefaultSpringConfig))"
  let ?r = "SetTarget 10 (SetCurrent 5 (NewSpring noCoefficients DefaultSpringConfig))"
  have a: "IsActive ?s" "IsActive ?r"
    by (simp_all add: IsActive_def SetTarget_def)
  have 1: "Update exactSub approachStep ?s
     = (False, \<lparr>spring = (), target = 10, current = 10, velocity = 0, active = False\<rparr>)"
    using a Update_settling [where s = ?s and hUpdate = approachStep and c = "39 / 4" and v = 0
        and fsub = exactSub]
    by (simp add: SetTarget_def SetCurrent_def NewSpring_def approachStep_def exactSub_def)
  have 2: "Update exactSub approachStep ?r
     = (True, \<lparr>spring = (), target = 10, current = 35 / 4, velocity = 0, active = True\<rparr>)"
    using a Update_settling [where s = ?r and hUpdate = approachStep and c = "35 / 4" and v = 0
        and fsub = exactSub]
    by (simp add: SetTarget_def SetCurrent_def NewSpring_def approachStep_def exactSub_def)
  from a 1 2 show ?thesis by simp
qed

text \<open>
  C5. A spring that reports inactive stays as it is under \<open>Update\<close>: the call returns
  false and the spring, in particular its current value and velocity, is unchanged;
  the same holds after any number of further calls.
\<close>

theorem Update_inactive_noop:
  assumes "\<not> IsActive s"
  shows "fst (Update fsub hUpdate s) = False
     \<and> Value (snd (Update fsub hUpdate s)) = Value s
     \<and> velocity (snd (Update fsub hUpdate s)) = velocity s
     \<and> Updates fsub hUpdate n s = s
     \<and> \<not> IsActive (Updates fsub hUpdate n s)"
  using assms by (simp add: IsActive_def Update_inactive Updates_inactive)

theorem Update_inactive_noop_witness:
  "\<not> IsActive (SetCurrent 3 (NewSpring noCoefficients FastSpringConfig))
   \<and> fst (Update exactSub pushStep (SetCurrent 3 (NewSpring noCoefficients FastSpringConfig))) = False
   \<and> Updates exactSub pushStep 5 (SetCurrent 3 (NewSpring noCoefficients FastSpringConfig))
     = \<lparr>spring = (), target = 3, current = 3, velocity = 0, active = False\<rparr>"
proof -
  let ?s = "SetCurrent 3 (NewSpring noCoefficients FastSpringConfig)"
  have a: "\<not> IsActive ?s"
    by (simp add: IsActive_def SetCurrent_def)
  show ?thesis
    using a Update_inactive_noop [OF a, of exactSub pushStep 5]
    by (simp add: SetCurrent_def NewSpring_def)
qed

text \<open>
  C7. The three named profiles are constants (the functions take no argument): default
  is stiffness 7.0 with damping 0.15, fast is 12.0 with 0.25, slow is 4.0 with 0.1, and
  the three stiffness/damping pairs are pairwise distinct.
\<close>

theorem spring_profiles:
  "(Stiffness DefaultSpringConfig, Damping DefaultSpringConfig) = (7, 15 / 100)
   \<and> (Stiffness FastSpringConfig, Damping FastSpringConfig) = (12, 25 / 100)
   \<and> (Stiffness SlowSpringConfig, Damping SlowSpringConfig) = (4, 1 / 10)
   \<and> distinct [(Stiffness DefaultSpringConfig, Damping DefaultSpringConfig),
                (Stiffness FastSpringConfig, Damping FastSpringConfig),
                (Stiffness SlowSpringConfig, Damping SlowSpringConfig)]"
  by (simp add: DefaultSpringConfig_def FastSpringConfig_def SlowSpringConfig_def)

section \<open>Properties of the theme registry and loader\<close>

lemma SetTheme_after_Register:
  "SetTheme (ID t) (Register t st) = (True, (Register t st)\<lparr>Current := t\<rparr>)"
  by (simp add: SetTheme_def Register_def)

text \<open>
  C9. \<open>SetTheme\<close> either succeeds completely or changes nothing: for a registered name
  it returns true, \<open>Current\<close> becomes the theme registered under that name and
  \<open>Available\<close> is as before; for an unregistered name it returns false and the
  registry (\<open>Current\<close> and \<open>Available\<close>) is exactly as before.
\<close>

theorem SetTheme_atomic:
  "(name \<in> dom (Available st) \<longrightarrow>
      fst (SetTheme name st) = True
      \<and> Available st name = Some (Current (snd (SetTheme name st)))
      \<and> Available (snd (SetTheme name st)) = Available st)
   \<and> (name \<notin> dom (Available st) \<longrightarrow>
      fst (SetTheme name st) = False \<and> snd (SetTheme name st) = st)"
  by (auto simp: SetTheme_def split: option.splits)

theorem SetTheme_atomic_witness:
  "''charm-light'' \<in> dom (Available startRegistry)
   \<and> fst (SetTheme ''charm-light'' startRegistry) = True
   \<and> Current (snd (SetTheme ''charm-light'' startRegistry)) = CharmLight noStyles
   \<and> ''dracula'' \<notin> dom (Available startRegistry)
   \<and> fst (SetTheme ''dracula'' startRegistry) = False
   \<and> snd (SetTheme ''dracula'' startRegistry) = startRegistry"
proof -
  have a: "Available startRegistry ''charm-light'' = Some (CharmLight noStyles)"
    by (simp add: startRegistry_def init_def Register_def Let_def
        CharmDark_def CharmLight_def CharmAuto_def)
  have b: "Available startRegistry ''dracula'' = None"
    by (simp add: startRegistry_def init_def Register_def Let_def zeroRegistry_def
        CharmDark_def CharmLight_def CharmAuto_def)
  from a have a': "''charm-light'' \<in> dom (Available startRegistry)"
    by blast
  from b have b': "''dracula'' \<notin> dom (Available startRegistry)"
    by blast
  show ?thesis
    using a a' b' SetTheme_atomic [of "''charm-light''" startRegistry]
      SetTheme_atomic [of "''dracula''" startRegistry]
    by simp
qed

lemma init_Current: "Current (init BuildStyles st0) = CharmDark BuildStyles"
  by (simp add: init_def Let_def)

lemma LoadThemeFromEnv_absent:
  assumes "Environ os ''AGENTUI_THEME'' = None \<or> Environ os ''AGENTUI_THEME'' = Some []"
  shows "LoadThemeFromEnv os unmarshal BuildStyles st = (None, st)"
  using assms by (auto simp: LoadThemeFromEnv_def Getenv_def)

lemma LoadThemeFromEnv_registered:
  assumes "Environ os ''AGENTUI_THEME'' = Some p" and "p \<noteq> []"
    and "Available st p = Some theme"
  shows "LoadThemeFromEnv os unmarshal BuildStyles st = (None, st\<lparr>Current := theme\<rparr>)"
  using assms by (simp add: LoadThemeFromEnv_def Getenv_def SetTheme_def)

lemma LoadThemeFromEnv_file:
  assumes "Environ os ''AGENTUI_THEME'' = Some p" and "p \<noteq> []"
    and "Available st p = None"
    and "Files os p = Some (RegularFile data)"
    and "unmarshal data = Inr tj"
    and "ToTheme BuildStyles tj = Inr theme"
  shows "LoadThemeFromEnv os unmarshal BuildStyles st = (None, (Register theme st)\<lparr>Current := theme\<rparr>)"
  using assms
  by (simp add: LoadThemeFromEnv_def Getenv_def Stat_def LoadThemeFromFile_def ReadFile_def
      LoadThemeFromJSON_def SetTheme_after_Register)

lemma LoadThemeFromEnv_unreadable:
  assumes "Environ os ''AGENTUI_THEME'' = Some p" and "p \<noteq> []"
    and "Available st p = None"
    and "Files os p = Some Directory"
  shows "LoadThemeFromEnv os unmarshal BuildStyles st =
     (Some (FailedToLoadThemeFrom p (FailedToReadThemeFile (OSError p))), st)"
  using assms
  by (simp add: LoadThemeFromEnv_def Getenv_def Stat_def LoadThemeFromFile_def ReadFile_def)

lemma LoadThemeFromEnv_unparsable:
  assumes "Environ os ''AGENTUI_THEME'' = Some p" and "p \<noteq> []"
    and "Available st p = None"
    and "Files os p = Some (RegularFile data)"
    and "unmarshal data = Inl e"
  shows "LoadThemeFromEnv os unmarshal BuildStyles st =
     (Some (FailedToLoadThemeFrom p (FailedToParseThemeJSON e)), st)"
  using assms
  by (simp add: LoadThemeFromEnv_def Getenv_def Stat_def LoadThemeFromFile_def ReadFile_def
      LoadThemeFromJSON_def)

lemma LoadThemeFromEnv_unknown:
  assumes "Environ os ''AGENTUI_THEME'' = Some p" and "p \<noteq> []"
    and "Available st p = None"
    and "Files os p = None"
  shows "LoadThemeFromEnv os unmarshal BuildStyles st = (Some (UnknownTheme p), st)"
  using assms by (simp add: LoadThemeFromEnv_def Getenv_def Stat_def)

lemma startRegistry_Available:
  "Available startRegistry =
     [''charm-dark'' \<mapsto> CharmDark noStyles, ''charm-light'' \<mapsto> CharmLight noStyles,
      ''charm-auto'' \<mapsto> CharmAuto noStyles]"
  by (simp add: startRegistry_def init_def Register_def Let_def zeroRegistry_def
      CharmDark_def CharmLight_def CharmAuto_def)

lemma ToTheme_nightJSON: "ToTheme noStyles nightJSON = Inr nightTheme"
  by (simp add: ToTheme_def Let_def nightJSON_def exportedJSON_def nightTheme_def
      CharmDark_def CharmDarkColors_def CharmPink_def CharmPurple_def CharmTeal_def
      colorToString_def parseColor_def noStyles_def)

text \<open>
  C8, as the claim states it, fails where \<open>AGENTUI_THEME\<close> names something that
  exists but is not a theme file. With the value \<open>/tmp\<close>, a directory, and with
  \<open>/tmp/notes.txt\<close>, a file that is not theme JSON, neither value being a registered
  identifier, \<open>LoadThemeFromEnv\<close> returns a "failed to load theme from" error, which
  is not the "unknown theme" error, and registers and selects nothing.
\<close>

theorem LoadThemeFromEnv_otherwise_counterexample:
  "Available startRegistry ''/tmp'' = None
   \<and> Files (envSet ''/tmp'') ''/tmp'' = Some Directory
   \<and> LoadThemeFromEnv (envSet ''/tmp'') exampleUnmarshal noStyles startRegistry
       = (Some (FailedToLoadThemeFrom ''/tmp'' (FailedToReadThemeFile (OSError ''/tmp''))),
          startRegistry)
   \<and> fst (LoadThemeFromEnv (envSet ''/tmp'') exampleUnmarshal noStyles startRegistry)
       \<noteq> Some (UnknownTheme ''/tmp'')
   \<and> Available startRegistry ''/tmp/notes.txt'' = None
   \<and> Files (envSet ''/tmp/notes.txt'') ''/tmp/notes.txt'' = Some (RegularFile ''to do'')
   \<and> exampleUnmarshal ''to do'' = Inl JSONError
   \<and> LoadThemeFromEnv (envSet ''/tmp/notes.txt'') exampleUnmarshal noStyles startRegistry
       = (Some (FailedToLoadThemeFrom ''/tmp/notes.txt'' (FailedToParseThemeJSON JSONError)),
          startRegistry)
   \<and> fst (LoadThemeFromEnv (envSet ''/tmp/notes.txt'') exampleUnmarshal noStyles startRegistry)
       \<noteq> Some (UnknownTheme ''/tmp/notes.txt'')"
proof -
  have a: "Available startRegistry ''/tmp'' = None"
    by (simp add: startRegistry_Available)
  have b: "Files (envSet ''/tmp'') ''/tmp'' = Some Directory"
    by (simp add: envSet_def exampleFiles_def)
  have c: "LoadThemeFromEnv (envSet ''/tmp'') exampleUnmarshal noStyles startRegistry
       = (Some (FailedToLoadThemeFrom ''/tmp'' (FailedToReadThemeFile (OSError ''/tmp''))),
          startRegistry)"
    by (rule LoadThemeFromEnv_unreadable [OF _ _ a b]) (simp_all add: envSet_def)
  have d: "Available startRegistry ''/tmp/notes.txt'' = None"
    by (simp add: startRegistry_Available)
  have e: "Files (envSet ''/tmp/notes.txt'') ''/tmp/notes.txt'' = Some (RegularFile ''to do'')"
    by (simp add: envSet_def exampleFiles_def)
  have f: "exampleUnmarshal ''to do'' = Inl JSONError"
    by (simp add: exampleUnmarshal_def)
  have g: "LoadThemeFromEnv (envSet ''/tmp/notes.txt'') exampleUnmarshal noStyles startRegistry
       = (Some (FailedToLoadThemeFrom ''/tmp/notes.txt'' (FailedToParseThemeJSON JSONError)),
          startRegistry)"
    using d e f
      LoadThemeFromEnv_unparsable [where os = "envSet ''/tmp/notes.txt''" and p = "''/tmp/notes.txt''"
        and st = startRegistry and data = "''to do''" and unmarshal = exampleUnmarshal
        and e = JSONError and BuildStyles = noStyles]
    by (simp add: envSet_def)
  show ?thesis
    by (simp add: a b c d e f g)
qed

text \<open>
  C8, amended. After \<open>init\<close> the current theme is \<open>CharmDark\<close>. If \<open>AGENTUI_THEME\<close> is
  unset or empty, \<open>LoadThemeFromEnv\<close> changes nothing. If its value is a registered
  identifier, that theme becomes \<open>Current\<close>. Otherwise, if the value is the path of a
  file whose content decodes as theme JSON, the loaded theme is registered under its
  ID and becomes \<open>Current\<close>; if the path exists but cannot be read or decoded, a
  "failed to load theme from" error wrapping the cause is returned and nothing changes;
  if the path does not exist, an "unknown theme" error is returned and nothing changes.
\<close>

theorem LoadThemeFromEnv_selects:
  "Current (init BuildStyles st0) = CharmDark BuildStyles
   \<and> (Environ os ''AGENTUI_THEME'' = None \<or> Environ os ''AGENTUI_THEME'' = Some [] \<longrightarrow>
        LoadThemeFromEnv os unmarshal BuildStyles st = (None, st))
   \<and> (Environ os ''AGENTUI_THEME'' = Some p \<and> p \<noteq> [] \<longrightarrow>
        (\<forall>theme. Available st p = Some theme \<longrightarrow>
           LoadThemeFromEnv os unmarshal BuildStyles st = (None, st\<lparr>Current := theme\<rparr>))
        \<and> (Available st p = None \<longrightarrow>
             (\<forall>data tj theme.
                Files os p = Some (RegularFile data) \<and> unmarshal data = Inr tj
                \<and> ToTheme BuildStyles tj = Inr theme \<longrightarrow>
                LoadThemeFromEnv os unmarshal BuildStyles st
                  = (None, (Register theme st)\<lparr>Current := theme\<rparr>))
             \<and> (\<forall>data e.
                Files os p = Some (RegularFile data) \<and> unmarshal data = Inl e \<longrightarrow>
                LoadThemeFromEnv os unmarshal BuildStyles st
                  = (Some (FailedToLoadThemeFrom p (FailedToParseThemeJSON e)), st))
             \<and> (Files os p = Some Directory \<longrightarrow>
                LoadThemeFromEnv os unmarshal BuildStyles st
                  = (Some (FailedToLoadThemeFrom p (FailedToReadThemeFile (OSError p))), st))
             \<and> (Files os p = None \<longrightarrow>
                LoadThemeFromEnv os unmarshal BuildStyles st = (Some (UnknownTheme p), st))))"
  using init_Current [of BuildStyles st0]
    LoadThemeFromEnv_absent [of os unmarshal BuildStyles st]
    LoadThemeFromEnv_registered [of os p st _ unmarshal BuildStyles]
    LoadThemeFromEnv_file [of os p st _ unmarshal _ BuildStyles]
    LoadThemeFromEnv_unparsable [of os p st _ unmarshal _ BuildStyles]
    LoadThemeFromEnv_unreadable [of os p st unmarshal BuildStyles]
    LoadThemeFromEnv_unknown [of os p st unmarshal BuildStyles]
  by blast


theorem LoadThemeFromEnv_selects_witness:
  "Current startRegistry = CharmDark noStyles
   \<and> LoadThemeFromEnv envUnset exampleUnmarshal noStyles startRegistry = (None, startRegistry)
   \<and> LoadThemeFromEnv (envSet ''charm-light'') exampleUnmarshal noStyles startRegistry
       = (None, startRegistry\<lparr>Current := CharmLight noStyles\<rparr>)
   \<and> LoadThemeFromEnv (envSet ''/tmp/night.json'') exampleUnmarshal noStyles startRegistry
       = (None, (Register nightTheme startRegistry)\<lparr>Current := nightTheme\<rparr>)
   \<and> LoadThemeFromEnv (envSet ''/tmp/notes.txt'') exampleUnmarshal noStyles startRegistry
       = (Some (FailedToLoadThemeFrom ''/tmp/notes.txt'' (FailedToParseThemeJSON JSONError)),
          startRegistry)
   \<and> LoadThemeFromEnv (envSet ''/tmp'') exampleUnmarshal noStyles startRegistry
       = (Some (FailedToLoadThemeFrom ''/tmp'' (FailedToReadThemeFile (OSError ''/tmp''))),
          startRegistry)
   \<and> LoadThemeFromEnv (envSet ''dracula'') exampleUnmarshal noStyles startRegistry
       = (Some (UnknownTheme ''dracula''), startRegistry)"
proof -
  have env: "Environ envUnset ''AGENTUI_THEME'' = None"
    "\<And>v. Environ (envSet v) ''AGENTUI_THEME'' = Some v"
    by (simp_all add: envUnset_def envSet_def)
  have files: "\<And>v. Files (envSet v) = exampleFiles"
    by (simp add: envSet_def)
  have fs: "exampleFiles ''/tmp/night.json'' = Some (RegularFile ''night'')"
    "exampleFiles ''/tmp/notes.txt'' = Some (RegularFile ''to do'')"
    "exampleFiles ''/tmp'' = Some Directory"
    "exampleFiles ''dracula'' = None"
    by (simp_all add: exampleFiles_def)
  have av: "Available startRegistry ''charm-light'' = Some (CharmLight noStyles)"
    "Available startRegistry ''/tmp/night.json'' = None"
    "Available startRegistry ''/tmp/notes.txt'' = None"
    "Available startRegistry ''/tmp'' = None"
    "Available startRegistry ''dracula'' = None"
    by (simp_all add: startRegistry_Available)
  have um: "exampleUnmarshal ''night'' = Inr nightJSON"
    "exampleUnmarshal ''to do'' = Inl JSONError"
    by (simp_all add: exampleUnmarshal_def)
  note t = LoadThemeFromEnv_selects [where unmarshal = exampleUnmarshal
      and BuildStyles = noStyles and st = startRegistry and ?st0.0 = "zeroRegistry ()"]
  have 0: "Current startRegistry = CharmDark noStyles"
    using t [of envUnset "''x''"] by (simp add: startRegistry_def)
  have 1: "LoadThemeFromEnv envUnset exampleUnmarshal noStyles startRegistry = (None, startRegistry)"
    using t [of envUnset "''x''"] env by simp
  have 2: "LoadThemeFromEnv (envSet ''charm-light'') exampleUnmarshal noStyles startRegistry
       = (None, startRegistry\<lparr>Current := CharmLight noStyles\<rparr>)"
    using t [of "envSet ''charm-light''" "''charm-light''"] env av by simp
  have 3: "LoadThemeFromEnv (envSet ''/tmp/night.json'') exampleUnmarshal noStyles startRegistry
       = (None, (Register nightTheme startRegistry)\<lparr>Current := nightTheme\<rparr>)"
    using t [of "envSet ''/tmp/night.json''" "''/tmp/night.json''"] env av files fs um
      ToTheme_nightJSON by simp
  have 4: "LoadThemeFromEnv (envSet ''/tmp/notes.txt'') exampleUnmarshal noStyles startRegistry
       = (Some (FailedToLoadThemeFrom ''/tmp/notes.txt'' (FailedToParseThemeJSON JSONError)),
          startRegistry)"
    using t [of "envSet ''/tmp/notes.txt''" "''/tmp/notes.txt''"] env av files fs um by simp
  have 5: "LoadThemeFromEnv (envSet ''/tmp'') exampleUnmarshal noStyles startRegistry
       = (Some (FailedToLoadThemeFrom ''/tmp'' (FailedToReadThemeFile (OSError ''/tmp''))),
          startRegistry)"
    using t [of "envSet ''/tmp''" "''/tmp''"] env av files fs by simp
  have 6: "LoadThemeFromEnv (envSet ''dracula'') exampleUnmarshal noStyles startRegistry
       = (Some (UnknownTheme ''dracula''), startRegistry)"
    using t [of "envSet ''dracula''" "''dracula''"] env av files fs by simp
  from 0 1 2 3 4 5 6 show ?thesis by simp
qed

section \<open>Properties of the JSON round trip of a theme\<close>

lemma toValidUTF8_Nil: "toValidUTF8 [] = []"
  by (simp add: toValidUTF8.simps)

lemma toValidUTF8_step:
  assumes "s \<noteq> []" and "runeWidth s \<noteq> 0"
  shows "toValidUTF8 s = take (runeWidth s) s @ toValidUTF8 (drop (runeWidth s) s)"
  using assms by (subst toValidUTF8.simps) simp

lemma toValidUTF8_replace:
  assumes "s \<noteq> []" and "runeWidth s = 0"
  shows "toValidUTF8 s = replacementChar @ toValidUTF8 (tl s)"
  using assms by (subst toValidUTF8.simps) simp

lemma validUTF8_toValidUTF8: "validUTF8 s \<Longrightarrow> toValidUTF8 s = s"
proof (induction s rule: toValidUTF8.induct)
  case (1 s)
  show ?case
  proof (cases "s = []")
    case True
    then show ?thesis by (simp add: toValidUTF8_Nil)
  next
    case False
    have w: "runeWidth s \<noteq> 0"
      using "1.prems" False by (subst (asm) validUTF8.simps) (auto split: if_splits)
    have "validUTF8 (drop (runeWidth s) s)"
      using "1.prems" False w by (subst (asm) validUTF8.simps) simp
    then have "toValidUTF8 (drop (runeWidth s) s) = drop (runeWidth s) s"
      using "1.IH"(2) False w by simp
    then show ?thesis
      using toValidUTF8_step [OF False w] by simp
  qed
qed

lemma length_toValidUTF8: "length s \<le> length (toValidUTF8 s)"
proof (induction s rule: toValidUTF8.induct)
  case (1 s)
  show ?case
  proof (cases "s = []")
    case True
    then show ?thesis by simp
  next
    case False
    show ?thesis
    proof (cases "runeWidth s = 0")
      case True
      have "length (tl s) \<le> length (toValidUTF8 (tl s))"
        using "1.IH"(1) False True by simp
      then show ?thesis
        using False toValidUTF8_replace [OF False True] by (simp add: replacementChar_def)
    next
      case w: False
      have "length (drop (runeWidth s) s) \<le> length (toValidUTF8 (drop (runeWidth s) s))"
        using "1.IH"(2) False w by simp
      then show ?thesis
        using toValidUTF8_step [OF False w] by simp
    qed
  qed
qed

lemma toValidUTF8_validUTF8: "toValidUTF8 s = s \<Longrightarrow> validUTF8 s"
proof (induction s rule: toValidUTF8.induct)
  case (1 s)
  show ?case
  proof (cases "s = []")
    case True
    then show ?thesis by (simp add: validUTF8.simps)
  next
    case False
    show ?thesis
    proof (cases "runeWidth s = 0")
      case True
      have "length (toValidUTF8 s) = 3 + length (toValidUTF8 (tl s))"
        using toValidUTF8_replace [OF False True] by (simp add: replacementChar_def)
      moreover have "length (tl s) \<le> length (toValidUTF8 (tl s))"
        by (rule length_toValidUTF8)
      ultimately have "length s < length (toValidUTF8 s)"
        using False by (cases s) simp_all
      then show ?thesis using "1.prems" by simp
    next
      case w: False
      have "take (runeWidth s) s @ toValidUTF8 (drop (runeWidth s) s)
          = take (runeWidth s) s @ drop (runeWidth s) s"
        using toValidUTF8_step [OF False w] "1.prems" by (simp only: append_take_drop_id)
      then have "toValidUTF8 (drop (runeWidth s) s) = drop (runeWidth s) s"
        by (simp only: same_append_eq)
      then have "validUTF8 (drop (runeWidth s) s)"
        using "1.IH"(2) False w by simp
      then show ?thesis
        using False w by (subst validUTF8.simps) simp
    qed
  qed
qed

lemma toValidUTF8_fixed: "toValidUTF8 s = s \<longleftrightarrow> validUTF8 s"
  using validUTF8_toValidUTF8 toValidUTF8_validUTF8 by blast

text \<open>What the decoder reads back from what the encoder wrote: every string coerced.\<close>

lemma unmarshalColors_marshalColors:
  "unmarshalColors (Some (marshalColors c)) =
     Inr \<lparr>cj_Primary = toValidUTF8 (cj_Primary c), cj_Secondary = toValidUTF8 (cj_Secondary c),
          cj_Background = toValidUTF8 (cj_Background c), cj_Surface = toValidUTF8 (cj_Surface c),
          cj_Overlay = toValidUTF8 (cj_Overlay c), cj_Text = toValidUTF8 (cj_Text c),
          cj_TextMuted = toValidUTF8 (cj_TextMuted c), cj_TextDim = toValidUTF8 (cj_TextDim c),
          cj_Success = toValidUTF8 (cj_Success c), cj_Warning = toValidUTF8 (cj_Warning c),
          cj_Error = toValidUTF8 (cj_Error c), cj_Info = toValidUTF8 (cj_Info c),
          cj_Accent1 = toValidUTF8 (cj_Accent1 c), cj_Accent2 = toValidUTF8 (cj_Accent2 c),
          cj_Accent3 = toValidUTF8 (cj_Accent3 c)\<rparr>"
  by (simp add: unmarshalColors_def marshalColors_def stringField_def jsonField_def andThen_def)

lemma json_Unmarshal_MarshalIndent:
  "\<exists>doc. json_MarshalIndent tj = Inr doc
     \<and> json_Unmarshal doc =
         Inr \<lparr>tj_ID = toValidUTF8 (tj_ID tj), tj_Name = toValidUTF8 (tj_Name tj),
              tj_Description = toValidUTF8 (tj_Description tj),
              tj_Author = toValidUTF8 (tj_Author tj),
              tj_Version = toValidUTF8 (tj_Version tj),
              tj_Colors =
                \<lparr>cj_Primary = toValidUTF8 (cj_Primary (tj_Colors tj)),
                 cj_Secondary = toValidUTF8 (cj_Secondary (tj_Colors tj)),
                 cj_Background = toValidUTF8 (cj_Background (tj_Colors tj)),
                 cj_Surface = toValidUTF8 (cj_Surface (tj_Colors tj)),
                 cj_Overlay = toValidUTF8 (cj_Overlay (tj_Colors tj)),
                 cj_Text = toValidUTF8 (cj_Text (tj_Colors tj)),
                 cj_TextMuted = toValidUTF8 (cj_TextMuted (tj_Colors tj)),
                 cj_TextDim = toValidUTF8 (cj_TextDim (tj_Colors tj)),
                 cj_Success = toValidUTF8 (cj_Success (tj_Colors tj)),
                 cj_Warning = toValidUTF8 (cj_Warning (tj_Colors tj)),
                 cj_Error = toValidUTF8 (cj_Error (tj_Colors tj)),
                 cj_Info = toValidUTF8 (cj_Info (tj_Colors tj)),
                 cj_Accent1 = toValidUTF8 (cj_Accent1 (tj_Colors tj)),
                 cj_Accent2 = toValidUTF8 (cj_Accent2 (tj_Colors tj)),
                 cj_Accent3 = toValidUTF8 (cj_Accent3 (tj_Colors tj))\<rparr>\<rparr>"
  by (simp add: json_MarshalIndent_def json_Unmarshal_def omitempty_def stringField_def
      jsonField_def andThen_def unmarshalColors_marshalColors toValidUTF8_Nil)

lemma exportThenLoad_result:
  "exportThenLoad BuildStyles t =
     ToTheme BuildStyles
       \<lparr>tj_ID = toValidUTF8 (ID t), tj_Name = toValidUTF8 (Name t),
        tj_Description = toValidUTF8 (Description t),
        tj_Author = toValidUTF8 (Author t),
        tj_Version = toValidUTF8 (Version t),
        tj_Colors =
          \<lparr>cj_Primary = toValidUTF8 (colorToString (Primary (Colors t))),
           cj_Secondary = toValidUTF8 (colorToString (Secondary (Colors t))),
           cj_Background = toValidUTF8 (colorToString (Background (Colors t))),
           cj_Surface = toValidUTF8 (colorToString (Surface (Colors t))),
           cj_Overlay = toValidUTF8 (colorToString (Overlay (Colors t))),
           cj_Text = toValidUTF8 (colorToString (Text (Colors t))),
           cj_TextMuted = toValidUTF8 (colorToString (TextMuted (Colors t))),
           cj_TextDim = toValidUTF8 (colorToString (TextDim (Colors t))),
           cj_Success = toValidUTF8 (colorToString (Success (Colors t))),
           cj_Warning = toValidUTF8 (colorToString (Warning (Colors t))),
           cj_Error = toValidUTF8 (colorToString (Error (Colors t))),
           cj_Info = toValidUTF8 (colorToString (Info (Colors t))),
           cj_Accent1 = toValidUTF8 (colorToString (Accent1 (Colors t))),
           cj_Accent2 = toValidUTF8 (colorToString (Accent2 (Colors t))),
           cj_Accent3 = toValidUTF8 (colorToString (Accent3 (Colors t)))\<rparr>\<rparr>"
proof -
  obtain doc where m: "json_MarshalIndent (exportedJSON t) = Inr doc"
    and u: "json_Unmarshal doc =
         Inr \<lparr>tj_ID = toValidUTF8 (tj_ID (exportedJSON t)),
              tj_Name = toValidUTF8 (tj_Name (exportedJSON t)),
              tj_Description = toValidUTF8 (tj_Description (exportedJSON t)),
              tj_Author = toValidUTF8 (tj_Author (exportedJSON t)),
              tj_Version = toValidUTF8 (tj_Version (exportedJSON t)),
              tj_Colors =
                \<lparr>cj_Primary = toValidUTF8 (cj_Primary (tj_Colors (exportedJSON t))),
                 cj_Secondary = toValidUTF8 (cj_Secondary (tj_Colors (exportedJSON t))),
                 cj_Background = toValidUTF8 (cj_Background (tj_Colors (exportedJSON t))),
                 cj_Surface = toValidUTF8 (cj_Surface (tj_Colors (exportedJSON t))),
                 cj_Overlay = toValidUTF8 (cj_Overlay (tj_Colors (exportedJSON t))),
                 cj_Text = toValidUTF8 (cj_Text (tj_Colors (exportedJSON t))),
                 cj_TextMuted = toValidUTF8 (cj_TextMuted (tj_Colors (exportedJSON t))),
                 cj_TextDim = toValidUTF8 (cj_TextDim (tj_Colors (exportedJSON t))),
                 cj_Success = toValidUTF8 (cj_Success (tj_Colors (exportedJSON t))),
                 cj_Warning = toValidUTF8 (cj_Warning (tj_Colors (exportedJSON t))),
                 cj_Error = toValidUTF8 (cj_Error (tj_Colors (exportedJSON t))),
                 cj_Info = toValidUTF8 (cj_Info (tj_Colors (exportedJSON t))),
                 cj_Accent1 = toValidUTF8 (cj_Accent1 (tj_Colors (exportedJSON t))),
                 cj_Accent2 = toValidUTF8 (cj_Accent2 (tj_Colors (exportedJSON t))),
                 cj_Accent3 = toValidUTF8 (cj_Accent3 (tj_Colors (exportedJSON t)))\<rparr>\<rparr>"
    using json_Unmarshal_MarshalIndent [of "exportedJSON t"] by blast
  have "exportThenLoad BuildStyles t = LoadThemeFromJSON json_Unmarshal BuildStyles doc"
    using m by (simp add: exportThenLoad_def ExportThemeToJSON_def)
  then show ?thesis
    using u by (simp add: LoadThemeFromJSON_def exportedJSON_def)
qed

lemma parseColor_Color: "parseColor s = Color s"
  by (simp add: parseColor_def)

lemma exportThenLoad_fields:
  "\<exists>t'. exportThenLoad BuildStyles t = Inr t'
     \<and> ID t' = toValidUTF8 (ID t) \<and> Name t' = toValidUTF8 (Name t)
     \<and> Description t' = toValidUTF8 (Description t) \<and> Author t' = toValidUTF8 (Author t)
     \<and> Version t' = toValidUTF8 (Version t)
     \<and> Primary (Colors t') = Color (toValidUTF8 (colorToString (Primary (Colors t))))
     \<and> Secondary (Colors t') = Color (toValidUTF8 (colorToString (Secondary (Colors t))))
     \<and> Background (Colors t') = Color (toValidUTF8 (colorToString (Background (Colors t))))
     \<and> Surface (Colors t') = Color (toValidUTF8 (colorToString (Surface (Colors t))))
     \<and> Overlay (Colors t') = Color (toValidUTF8 (colorToString (Overlay (Colors t))))
     \<and> Text (Colors t') = Color (toValidUTF8 (colorToString (Text (Colors t))))
     \<and> TextMuted (Colors t') = Color (toValidUTF8 (colorToString (TextMuted (Colors t))))
     \<and> TextDim (Colors t') = Color (toValidUTF8 (colorToString (TextDim (Colors t))))
     \<and> Success (Colors t') = Color (toValidUTF8 (colorToString (Success (Colors t))))
     \<and> Warning (Colors t') = Color (toValidUTF8 (colorToString (Warning (Colors t))))
     \<and> Error (Colors t') = Color (toValidUTF8 (colorToString (Error (Colors t))))
     \<and> Info (Colors t') = Color (toValidUTF8 (colorToString (Info (Colors t))))
     \<and> Accent1 (Colors t') = Color (toValidUTF8 (colorToString (Accent1 (Colors t))))
     \<and> Accent2 (Colors t') = Color (toValidUTF8 (colorToString (Accent2 (Colors t))))
     \<and> Accent3 (Colors t') = Color (toValidUTF8 (colorToString (Accent3 (Colors t))))
     \<and> Styles t' = BuildStyles (Colors t')"
  by (simp add: exportThenLoad_result ToTheme_def Let_def parseColor_Color)

lemma simple_color_string: "isSimpleColor c \<Longrightarrow> c = Color (colorToString c)"
  by (cases c) (simp_all add: isSimpleColor_def colorToString_def)

lemma simple_color_reread:
  assumes "isSimpleColor c"
  shows "Color (toValidUTF8 (colorToString c)) = c \<longleftrightarrow> validUTF8 (colorToString c)"
proof -
  have "Color (toValidUTF8 (colorToString c)) = Color (colorToString c)
      \<longleftrightarrow> validUTF8 (colorToString c)"
    by (simp add: toValidUTF8_fixed)
  then show ?thesis
    using simple_color_string [OF assms] by simp
qed

text \<open>
  C10, as the claim states it, fails for a theme whose strings are not all valid
  UTF-8. The theme \<open>binaryIdTheme\<close> has fifteen simple colors and the identifier
  \<open>0xFF\<close>; exporting and loading it succeeds, but the identifier that comes back is
  the three bytes of U+FFFD, not the identifier of the theme.
\<close>

theorem export_load_binary_counterexample:
  "allSimpleColors (Colors binaryIdTheme)
   \<and> exportThenLoad noStyles binaryIdTheme
       = Inr (binaryIdTheme\<lparr>ID := [CHR 0xEF, CHR 0xBF, CHR 0xBD]\<rparr>)
   \<and> ID (binaryIdTheme\<lparr>ID := [CHR 0xEF, CHR 0xBF, CHR 0xBD]\<rparr>) \<noteq> ID binaryIdTheme"
proof -
  have a: "allSimpleColors (Colors binaryIdTheme)"
    by (simp add: binaryIdTheme_def nightTheme_def CharmDark_def CharmDarkColors_def
        allSimpleColors_def isSimpleColor_def CharmPink_def CharmPurple_def CharmTeal_def)
  have v: "toValidUTF8 [CHR 0xFF] = [CHR 0xEF, CHR 0xBF, CHR 0xBD]"
    "toValidUTF8 ''Night'' = ''Night''"
    "toValidUTF8 ''The signature Charm aesthetic - glamorous terminal vibes''
       = ''The signature Charm aesthetic - glamorous terminal vibes''"
    "toValidUTF8 ''AgentUI Team'' = ''AgentUI Team''"
    "toValidUTF8 ''1.0.0'' = ''1.0.0''"
    "toValidUTF8 ''212'' = ''212''"
    "toValidUTF8 ''#7D56F4'' = ''#7D56F4''"
    "toValidUTF8 ''#1a1a2e'' = ''#1a1a2e''"
    "toValidUTF8 ''#252538'' = ''#252538''"
    "toValidUTF8 ''#2f2f45'' = ''#2f2f45''"
    "toValidUTF8 ''#FAFAFA'' = ''#FAFAFA''"
    "toValidUTF8 ''#a9b1d6'' = ''#a9b1d6''"
    "toValidUTF8 ''#565f89'' = ''#565f89''"
    "toValidUTF8 ''#04B575'' = ''#04B575''"
    "toValidUTF8 ''#ffb86c'' = ''#ffb86c''"
    "toValidUTF8 ''#ff6b6b'' = ''#ff6b6b''"
    "toValidUTF8 ''#7dcfff'' = ''#7dcfff''"
    "toValidUTF8 ''35'' = ''35''"
    by code_simp+
  have r: "exportThenLoad noStyles binaryIdTheme
       = Inr (binaryIdTheme\<lparr>ID := [CHR 0xEF, CHR 0xBF, CHR 0xBD]\<rparr>)"
    by (simp add: exportThenLoad_result ToTheme_def Let_def parseColor_Color
        binaryIdTheme_def nightTheme_def CharmDark_def CharmDarkColors_def
        CharmPink_def CharmPurple_def CharmTeal_def colorToString_def noStyles_def v)
  show ?thesis
    using a r by (simp add: binaryIdTheme_def)
qed

text \<open>
  C10, amended. For a theme whose fifteen colors are all simple \<open>lipgloss.Color\<close>
  strings, exporting it to JSON and loading the result succeeds. The theme that comes
  back has the ID, name, description, author, version and color strings of the
  original with every byte that is not part of a valid UTF-8 sequence replaced by
  U+FFFD, and styles built from its colors. It reproduces the ID, name, description,
  author, version and all fifteen colors exactly if and only if all these strings are
  valid UTF-8. A color that is not a simple \<open>lipgloss.Color\<close> is exported as the empty
  string and so does not come back as itself.
\<close>

theorem export_load_roundtrip:
  assumes "allSimpleColors (Colors t)"
  shows "(\<exists>t'. exportThenLoad BuildStyles t = Inr t'
       \<and> ID t' = toValidUTF8 (ID t) \<and> Name t' = toValidUTF8 (Name t)
       \<and> Description t' = toValidUTF8 (Description t) \<and> Author t' = toValidUTF8 (Author t)
       \<and> Version t' = toValidUTF8 (Version t)
       \<and> Primary (Colors t') = Color (toValidUTF8 (colorToString (Primary (Colors t))))
       \<and> Secondary (Colors t') = Color (toValidUTF8 (colorToString (Secondary (Colors t))))
       \<and> Background (Colors t') = Color (toValidUTF8 (colorToString (Background (Colors t))))
       \<and> Surface (Colors t') = Color (toValidUTF8 (colorToString (Surface (Colors t))))
       \<and> Overlay (Colors t') = Color (toValidUTF8 (colorToString (Overlay (Colors t))))
       \<and> Text (Colors t') = Color (toValidUTF8 (colorToString (Text (Colors t))))
       \<and> TextMuted (Colors t') = Color (toValidUTF8 (colorToString (TextMuted (Colors t))))
       \<and> TextDim (Colors t') = Color (toValidUTF8 (colorToString (TextDim (Colors t))))
       \<and> Success (Colors t') = Color (toValidUTF8 (colorToString (Success (Colors t))))
       \<and> Warning (Colors t') = Color (toValidUTF8 (colorToString (Warning (Colors t))))
       \<and> Error (Colors t') = Color (toValidUTF8 (colorToString (Error (Colors t))))
       \<and> Info (Colors t') = Color (toValidUTF8 (colorToString (Info (Colors t))))
       \<and> Accent1 (Colors t') = Color (toValidUTF8 (colorToString (Accent1 (Colors t))))
       \<and> Accent2 (Colors t') = Color (toValidUTF8 (colorToString (Accent2 (Colors t))))
       \<and> Accent3 (Colors t') = Color (toValidUTF8 (colorToString (Accent3 (Colors t))))
       \<and> Styles t' = BuildStyles (Colors t')
       \<and> (themeStringsValid t \<longrightarrow> t' = t\<lparr>Styles := BuildStyles (Colors t)\<rparr>)
       \<and> ((ID t' = ID t \<and> Name t' = Name t \<and> Description t' = Description t
            \<and> Author t' = Author t \<and> Version t' = Version t \<and> Colors t' = Colors t)
           \<longleftrightarrow> themeStringsValid t))
     \<and> (\<forall>c. \<not> isSimpleColor c \<longrightarrow>
           colorToString c = [] \<and> parseColor (colorToString c) = Color []
           \<and> parseColor (colorToString c) \<noteq> c)"
proof
  obtain t' where r: "exportThenLoad BuildStyles t = Inr t'"
    and m: "ID t' = toValidUTF8 (ID t)" "Name t' = toValidUTF8 (Name t)"
      "Description t' = toValidUTF8 (Description t)" "Author t' = toValidUTF8 (Author t)"
      "Version t' = toValidUTF8 (Version t)"
    and c: "Primary (Colors t') = Color (toValidUTF8 (colorToString (Primary (Colors t))))"
      "Secondary (Colors t') = Color (toValidUTF8 (colorToString (Secondary (Colors t))))"
      "Background (Colors t') = Color (toValidUTF8 (colorToString (Background (Colors t))))"
      "Surface (Colors t') = Color (toValidUTF8 (colorToString (Surface (Colors t))))"
      "Overlay (Colors t') = Color (toValidUTF8 (colorToString (Overlay (Colors t))))"
      "Text (Colors t') = Color (toValidUTF8 (colorToString (Text (Colors t))))"
      "TextMuted (Colors t') = Color (toValidUTF8 (colorToString (TextMuted (Colors t))))"
      "TextDim (Colors t') = Color (toValidUTF8 (colorToString (TextDim (Colors t))))"
      "Success (Colors t') = Color (toValidUTF8 (colorToString (Success (Colors t))))"
      "Warning (Colors t') = Color (toValidUTF8 (colorToString (Warning (Colors t))))"
      "Error (Colors t') = Color (toValidUTF8 (colorToString (Error (Colors t))))"
      "Info (Colors t') = Color (toValidUTF8 (colorToString (Info (Colors t))))"
      "Accent1 (Colors t') = Color (toValidUTF8 (colorToString (Accent1 (Colors t))))"
      "Accent2 (Colors t') = Color (toValidUTF8 (colorToString (Accent2 (Colors t))))"
      "Accent3 (Colors t') = Color (toValidUTF8 (colorToString (Accent3 (Colors t))))"
    and s: "Styles t' = BuildStyles (Colors t')"
    using exportThenLoad_fields [of BuildStyles t] by blast
  have simple: "isSimpleColor (Primary (Colors t))" "isSimpleColor (Secondary (Colors t))"
    "isSimpleColor (Background (Colors t))" "isSimpleColor (Surface (Colors t))"
    "isSimpleColor (Overlay (Colors t))" "isSimpleColor (Text (Colors t))"
    "isSimpleColor (TextMuted (Colors t))" "isSimpleColor (TextDim (Colors t))"
    "isSimpleColor (Success (Colors t))" "isSimpleColor (Warning (Colors t))"
    "isSimpleColor (Error (Colors t))" "isSimpleColor (Info (Colors t))"
    "isSimpleColor (Accent1 (Colors t))" "isSimpleColor (Accent2 (Colors t))"
    "isSimpleColor (Accent3 (Colors t))"
    using assms by (simp_all add: allSimpleColors_def)
  have meta: "ID t' = ID t \<longleftrightarrow> validUTF8 (ID t)" "Name t' = Name t \<longleftrightarrow> validUTF8 (Name t)"
    "Description t' = Description t \<longleftrightarrow> validUTF8 (Description t)"
    "Author t' = Author t \<longleftrightarrow> validUTF8 (Author t)"
    "Version t' = Version t \<longleftrightarrow> validUTF8 (Version t)"
    by (simp_all add: m toValidUTF8_fixed)
  have col: "Primary (Colors t') = Primary (Colors t) \<longleftrightarrow> validUTF8 (colorToString (Primary (Colors t)))"
    "Secondary (Colors t') = Secondary (Colors t) \<longleftrightarrow> validUTF8 (colorToString (Secondary (Colors t)))"
    "Background (Colors t') = Background (Colors t) \<longleftrightarrow> validUTF8 (colorToString (Background (Colors t)))"
    "Surface (Colors t') = Surface (Colors t) \<longleftrightarrow> validUTF8 (colorToString (Surface (Colors t)))"
    "Overlay (Colors t') = Overlay (Colors t) \<longleftrightarrow> validUTF8 (colorToString (Overlay (Colors t)))"
    "Text (Colors t') = Text (Colors t) \<longleftrightarrow> validUTF8 (colorToString (Text (Colors t)))"
    "TextMuted (Colors t') = TextMuted (Colors t) \<longleftrightarrow> validUTF8 (colorToString (TextMuted (Colors t)))"
    "TextDim (Colors t') = TextDim (Colors t) \<longleftrightarrow> validUTF8 (colorToString (TextDim (Colors t)))"
    "Success (Colors t') = Success (Colors t) \<longleftrightarrow> validUTF8 (colorToString (Success (Colors t)))"
    "Warning (Colors t') = Warning (Colors t) \<longleftrightarrow> validUTF8 (colorToString (Warning (Colors t)))"
    "Error (Colors t') = Error (Colors t) \<longleftrightarrow> validUTF8 (colorToString (Error (Colors t)))"
    "Info (Colors t') = Info (Colors t) \<longleftrightarrow> validUTF8 (colorToString (Info (Colors t)))"
    "Accent1 (Colors t') = Accent1 (Colors t) \<longleftrightarrow> validUTF8 (colorToString (Accent1 (Colors t)))"
    "Accent2 (Colors t') = Accent2 (Colors t) \<longleftrightarrow> validUTF8 (colorToString (Accent2 (Colors t)))"
    "Accent3 (Colors t') = Accent3 (Colors t) \<longleftrightarrow> validUTF8 (colorToString (Accent3 (Colors t)))"
    using simple by (simp_all add: c simple_color_reread)
  have colors: "Colors t' = Colors t \<longleftrightarrow>
      (Primary (Colors t') = Primary (Colors t) \<and> Secondary (Colors t') = Secondary (Colors t)
       \<and> Background (Colors t') = Background (Colors t) \<and> Surface (Colors t') = Surface (Colors t)
       \<and> Overlay (Colors t') = Overlay (Colors t) \<and> Text (Colors t') = Text (Colors t)
       \<and> TextMuted (Colors t') = TextMuted (Colors t) \<and> TextDim (Colors t') = TextDim (Colors t)
       \<and> Success (Colors t') = Success (Colors t) \<and> Warning (Colors t') = Warning (Colors t)
       \<and> Error (Colors t') = Error (Colors t) \<and> Info (Colors t') = Info (Colors t)
       \<and> Accent1 (Colors t') = Accent1 (Colors t) \<and> Accent2 (Colors t') = Accent2 (Colors t)
       \<and> Accent3 (Colors t') = Accent3 (Colors t))"
    by (cases "Colors t'"; cases "Colors t") auto
  have same: "(ID t' = ID t \<and> Name t' = Name t \<and> Description t' = Description t
            \<and> Author t' = Author t \<and> Version t' = Version t \<and> Colors t' = Colors t)
           \<longleftrightarrow> themeStringsValid t"
    unfolding colors meta col themeStringsValid_def by (rule refl)
  have whole: "themeStringsValid t \<longrightarrow> t' = t\<lparr>Styles := BuildStyles (Colors t)\<rparr>"
  proof
    assume "themeStringsValid t"
    then have e: "ID t' = ID t" "Name t' = Name t" "Description t' = Description t"
      "Author t' = Author t" "Version t' = Version t" "Colors t' = Colors t"
      using same by simp_all
    then show "t' = t\<lparr>Styles := BuildStyles (Colors t)\<rparr>"
      using s by (cases t'; cases t) simp
  qed
  show "\<exists>t'. exportThenLoad BuildStyles t = Inr t'
       \<and> ID t' = toValidUTF8 (ID t) \<and> Name t' = toValidUTF8 (Name t)
       \<and> Description t' = toValidUTF8 (Description t) \<and> Author t' = toValidUTF8 (Author t)
       \<and> Version t' = toValidUTF8 (Version t)
       \<and> Primary (Colors t') = Color (toValidUTF8 (colorToString (Primary (Colors t))))
       \<and> Secondary (Colors t') = Color (toValidUTF8 (colorToString (Secondary (Colors t))))
       \<and> Background (Colors t') = Color (toValidUTF8 (colorToString (Background (Colors t))))
       \<and> Surface (Colors t') = Color (toValidUTF8 (colorToString (Surface (Colors t))))
       \<and> Overlay (Colors t') = Color (toValidUTF8 (colorToString (Overlay (Colors t))))
       \<and> Text (Colors t') = Color (toValidUTF8 (colorToString (Text (Colors t))))
       \<and> TextMuted (Colors t') = Color (toValidUTF8 (colorToString (TextMuted (Colors t))))
       \<and> TextDim (Colors t') = Color (toValidUTF8 (colorToString (TextDim (Colors t))))
       \<and> Success (Colors t') = Color (toValidUTF8 (colorToString (Success (Colors t))))
       \<and> Warning (Colors t') = Color (toValidUTF8 (colorToString (Warning (Colors t))))
       \<and> Error (Colors t') = Color (toValidUTF8 (colorToString (Error (Colors t))))
       \<and> Info (Colors t') = Color (toValidUTF8 (colorToString (Info (Colors t))))
       \<and> Accent1 (Colors t') = Color (toValidUTF8 (colorToString (Accent1 (Colors t))))
       \<and> Accent2 (Colors t') = Color (toValidUTF8 (colorToString (Accent2 (Colors t))))
       \<and> Accent3 (Colors t') = Color (toValidUTF8 (colorToString (Accent3 (Colors t))))
       \<and> Styles t' = BuildStyles (Colors t')
       \<and> (themeStringsValid t \<longrightarrow> t' = t\<lparr>Styles := BuildStyles (Colors t)\<rparr>)
       \<and> ((ID t' = ID t \<and> Name t' = Name t \<and> Description t' = Description t
            \<and> Author t' = Author t \<and> Version t' = Version t \<and> Colors t' = Colors t)
           \<longleftrightarrow> themeStringsValid t)"
    by (rule exI [of _ t']) (intro conjI; fact r m c s whole same)
next
  show "\<forall>c. \<not> isSimpleColor c \<longrightarrow>
           colorToString c = [] \<and> parseColor (colorToString c) = Color []
           \<and> parseColor (colorToString c) \<noteq> c"
  proof (intro allI impI)
    fix c
    assume "\<not> isSimpleColor c"
    then show "colorToString c = [] \<and> parseColor (colorToString c) = Color []
           \<and> parseColor (colorToString c) \<noteq> c"
      by (cases c) (simp_all add: isSimpleColor_def colorToString_def parseColor_def)
  qed
qed

theorem export_load_roundtrip_witness:
  "allSimpleColors (Colors nightTheme)
   \<and> themeStringsValid nightTheme
   \<and> exportThenLoad noStyles nightTheme = Inr nightTheme
   \<and> colorToString (AdaptiveColor ''#7D56F4'' ''212'') = []"
proof -
  have a: "allSimpleColors (Colors nightTheme)"
    by (simp add: nightTheme_def CharmDark_def CharmDarkColors_def allSimpleColors_def
        isSimpleColor_def CharmPink_def CharmPurple_def CharmTeal_def)
  have v: "themeStringsValid nightTheme"
    by code_simp
  have d: "nightTheme\<lparr>Styles := noStyles (Colors nightTheme)\<rparr> = nightTheme"
    by simp
  obtain t' where "exportThenLoad noStyles nightTheme = Inr t'"
    and "themeStringsValid nightTheme \<longrightarrow> t' = nightTheme\<lparr>Styles := noStyles (Colors nightTheme)\<rparr>"
    using export_load_roundtrip [OF a, of noStyles] by blast
  then have r: "exportThenLoad noStyles nightTheme = Inr nightTheme"
    using v d by simp
  have n: "colorToString (AdaptiveColor ''#7D56F4'' ''212'') = []"
    using export_load_roundtrip [OF a, of noStyles] by (simp add: isSimpleColor_def)
  from a v r n show ?thesis by simp
qed

section \<open>Properties of the request/reply correlation\<close>

lemma bridge_inv_new: "bridge_inv newBridge"
  by (simp add: bridge_inv_def newBridge_def)

lemma bridge_inv_pending:
  "bridge_inv b \<Longrightarrow> pending b i = Some d \<Longrightarrow> i < nextId b \<and> delivered b i = [] \<and> clock b \<le> d"
  unfolding bridge_inv_def by (erule allE [of _ i]) simp

lemma bridge_inv_done:
  "bridge_inv b \<Longrightarrow> pending b i = None \<Longrightarrow> i < nextId b \<Longrightarrow> \<exists>x. delivered b i = [x]"
  unfolding bridge_inv_def by (erule allE [of _ i]) simp

lemma bridge_inv_unissued:
  "bridge_inv b \<Longrightarrow> \<not> i < nextId b \<Longrightarrow> pending b i = None \<and> delivered b i = []"
  unfolding bridge_inv_def by (erule allE [of _ i]) (simp split: option.splits)

lemma bridge_inv_request:
  assumes "bridge_inv b"
  shows "bridge_inv (request t b)"
proof (cases "connected b")
  case False
  with assms show ?thesis by (simp add: request_def)
next
  case True
  have fresh: "pending b (nextId b) = None"
    using bridge_inv_unissued [OF assms, of "nextId b"] by simp
  have r: "request t b = b\<lparr>pending := (pending b)(nextId b \<mapsto> clock b + t), nextId := Suc (nextId b)\<rparr>"
    using True fresh by (simp add: request_def register_def)
  show ?thesis
    unfolding bridge_inv_def
  proof
    fix i
    show "case pending (request t b) i of
            Some d \<Rightarrow> i < nextId (request t b) \<and> delivered (request t b) i = [] \<and> clock (request t b) \<le> d
          | None \<Rightarrow> if i < nextId (request t b) then (\<exists>x. delivered (request t b) i = [x])
                    else delivered (request t b) i = []"
    proof (cases "i = nextId b")
      case True
      then show ?thesis
        using bridge_inv_unissued [OF assms, of i] by (simp add: r)
    next
      case False
      show ?thesis
      proof (cases "pending b i")
        case None
        then show ?thesis
          using False bridge_inv_done [OF assms None] bridge_inv_unissued [OF assms, of i]
          by (auto simp: r)
      next
        case (Some d)
        then show ?thesis
          using False bridge_inv_pending [OF assms Some] by (simp add: r)
      qed
    qed
  qed
qed

lemma bridge_inv_complete:
  assumes "bridge_inv b"
  shows "bridge_inv (complete_entry j res b)"
proof (cases "pending b j")
  case None
  with assms show ?thesis by (simp add: complete_entry_def)
next
  case (Some dj)
  have c: "complete_entry j res b =
      b\<lparr>pending := (pending b)(j := None), delivered := (delivered b)(j := delivered b j @ [res])\<rparr>"
    using Some by (simp add: complete_entry_def)
  show ?thesis
    unfolding bridge_inv_def
  proof
    fix i
    show "case pending (complete_entry j res b) i of
            Some d \<Rightarrow> i < nextId (complete_entry j res b) \<and> delivered (complete_entry j res b) i = []
                      \<and> clock (complete_entry j res b) \<le> d
          | None \<Rightarrow> if i < nextId (complete_entry j res b)
                    then (\<exists>x. delivered (complete_entry j res b) i = [x])
                    else delivered (complete_entry j res b) i = []"
    proof (cases "i = j")
      case True
      then show ?thesis
        using bridge_inv_pending [OF assms Some] by (simp add: c)
    next
      case False
      show ?thesis
      proof (cases "pending b i")
        case None
        then show ?thesis
          using False bridge_inv_done [OF assms None] bridge_inv_unissued [OF assms, of i]
          by (auto simp: c)
      next
        case (Some d)
        then show ?thesis
          using False bridge_inv_pending [OF assms Some] by (simp add: c)
      qed
    qed
  qed
qed

lemma bridge_inv_cancelAll:
  assumes "bridge_inv b"
  shows "bridge_inv (cancelAll reason b)"
  unfolding bridge_inv_def
proof
  fix i
  let ?b = "cancelAll reason b"
  show "case pending ?b i of
          Some d \<Rightarrow> i < nextId ?b \<and> delivered ?b i = [] \<and> clock ?b \<le> d
        | None \<Rightarrow> if i < nextId ?b then (\<exists>x. delivered ?b i = [x]) else delivered ?b i = []"
  proof (cases "pending b i")
    case None
    then show ?thesis
      using bridge_inv_done [OF assms None] bridge_inv_unissued [OF assms, of i]
      by (auto simp: cancelAll_def)
  next
    case (Some d)
    then show ?thesis
      using bridge_inv_pending [OF assms Some] by (simp add: cancelAll_def)
  qed
qed

lemma bridge_inv_elapse:
  assumes "bridge_inv b"
  shows "bridge_inv (expire (b\<lparr>clock := Suc (clock b)\<rparr>))"
  unfolding bridge_inv_def
proof
  fix i
  let ?b = "expire (b\<lparr>clock := Suc (clock b)\<rparr>)"
  show "case pending ?b i of
          Some d \<Rightarrow> i < nextId ?b \<and> delivered ?b i = [] \<and> clock ?b \<le> d
        | None \<Rightarrow> if i < nextId ?b then (\<exists>x. delivered ?b i = [x]) else delivered ?b i = []"
  proof (cases "pending b i")
    case None
    then show ?thesis
      using bridge_inv_done [OF assms None] bridge_inv_unissued [OF assms, of i]
      by (auto simp: expire_def)
  next
    case (Some d)
    then show ?thesis
      using bridge_inv_pending [OF assms Some] by (auto simp: expire_def)
  qed
qed

lemma bridge_inv_connected: "bridge_inv (b\<lparr>connected := c\<rparr>) \<longleftrightarrow> bridge_inv b"
  by (simp add: bridge_inv_def cong: option.case_cong)

lemma bridge_inv_step: "bridge_inv b \<Longrightarrow> bridge_inv (step e b)"
  by (cases e)
    (simp_all add: bridge_inv_request bridge_inv_complete bridge_inv_cancelAll bridge_inv_elapse
      bridge_inv_connected)

lemma bridge_inv_run: "bridge_inv b \<Longrightarrow> bridge_inv (run es b)"
  by (induction es arbitrary: b) (simp_all add: bridge_inv_step)

lemma nextId_step: "nextId b \<le> nextId (step e b)"
  by (cases e)
    (simp_all add: request_def register_def complete_entry_def expire_def cancelAll_def
      split: option.splits)

lemma nextId_run: "nextId b \<le> nextId (run es b)"
proof (induction es arbitrary: b)
  case Nil
  show ?case by simp
next
  case (Cons e es)
  have "nextId b \<le> nextId (step e b)" by (rule nextId_step)
  also have "\<dots> \<le> nextId (run es (step e b))" by (rule Cons.IH)
  finally show ?case by simp
qed

lemma clock_step: "clock (step e b) = clock b + elapsed [e]"
  by (cases e)
    (simp_all add: request_def register_def complete_entry_def expire_def cancelAll_def
      split: option.splits)

lemma elapsed_Cons: "elapsed (e # es) = elapsed [e] + elapsed es"
  by (cases e) simp_all

lemma clock_run: "clock (run es b) = clock b + elapsed es"
proof (induction es arbitrary: b)
  case Nil
  show ?case by simp
next
  case (Cons e es)
  show ?case
    using Cons.IH [of "step e b"] clock_step [of e b] elapsed_Cons [of e es] by simp
qed

text \<open>An entry found after a step under an identifier issued before was there before.\<close>

lemma pending_step_old:
  assumes "i < nextId b" and "pending (step e b) i = Some d"
  shows "pending b i = Some d"
  using assms
  by (cases e)
    (auto simp: request_def register_def complete_entry_def expire_def cancelAll_def
      split: option.splits if_splits)

lemma pending_run_old:
  assumes "i < nextId b" and "pending (run es b) i = Some d"
  shows "pending b i = Some d"
  using assms
proof (induction es arbitrary: b)
  case Nil
  then show ?case by simp
next
  case (Cons e es)
  have "i < nextId (step e b)"
    using Cons.prems(1) nextId_step [of b e] by simp
  then have "pending (step e b) i = Some d"
    using Cons.IH Cons.prems(2) by simp
  then show ?case
    by (rule pending_step_old [OF Cons.prems(1)])
qed

lemma pending_after_Exit:
  assumes "Exit \<in> set es" and "i < nextId b"
  shows "pending (run es b) i = None"
  using assms
proof (induction es arbitrary: b)
  case Nil
  then show ?case by simp
next
  case (Cons e es)
  have lt: "i < nextId (step e b)"
    using Cons.prems(2) nextId_step [of b e] by simp
  show ?case
  proof (cases "e = Exit")
    case True
    have "pending (step e b) i = None"
      by (simp add: True cancelAll_def)
    then have "pending (run es (step e b)) i = None"
      using pending_run_old [OF lt, of es] by (cases "pending (run es (step e b)) i") auto
    then show ?thesis by simp
  next
    case False
    then have "Exit \<in> set es" using Cons.prems(1) by simp
    then show ?thesis using Cons.IH lt by simp
  qed
qed

text \<open>
  Outcomes are only ever appended. A reply handed over came in under that identifier, a
  \<open>TransportClosed\<close> comes from an exit, and a \<open>Timeout\<close> from an entry whose
  deadline has passed.
\<close>

lemma delivered_step:
  "\<exists>ys. delivered (step e b) i = delivered b i @ ys
        \<and> (\<forall>p. Reply p \<in> set ys \<longrightarrow> e = Incoming i p)
        \<and> (TransportClosed \<in> set ys \<longrightarrow> e = Exit)
        \<and> (Timeout \<in> set ys \<longrightarrow> (\<exists>d. pending b i = Some d \<and> d < clock (step e b)))"
  by (cases e)
    (auto simp: request_def register_def complete_entry_def expire_def cancelAll_def
      split: option.splits)

lemma delivered_run:
  "\<exists>ys. delivered (run es b) i = delivered b i @ ys
        \<and> (\<forall>p. Reply p \<in> set ys \<longrightarrow> Incoming i p \<in> set es)
        \<and> (TransportClosed \<in> set ys \<longrightarrow> Exit \<in> set es)
        \<and> (i < nextId b \<longrightarrow> Timeout \<in> set ys \<longrightarrow>
             (\<exists>d. pending b i = Some d \<and> d < clock (run es b)))"
proof (induction es arbitrary: b)
  case Nil
  show ?case by simp
next
  case (Cons e es)
  obtain ys where ys: "delivered (step e b) i = delivered b i @ ys"
    "\<forall>p. Reply p \<in> set ys \<longrightarrow> e = Incoming i p"
    "TransportClosed \<in> set ys \<longrightarrow> e = Exit"
    "Timeout \<in> set ys \<longrightarrow> (\<exists>d. pending b i = Some d \<and> d < clock (step e b))"
    using delivered_step [of e b i] by blast
  obtain zs where zs: "delivered (run es (step e b)) i = delivered (step e b) i @ zs"
    "\<forall>p. Reply p \<in> set zs \<longrightarrow> Incoming i p \<in> set es"
    "TransportClosed \<in> set zs \<longrightarrow> Exit \<in> set es"
    "i < nextId (step e b) \<longrightarrow> Timeout \<in> set zs \<longrightarrow>
       (\<exists>d. pending (step e b) i = Some d \<and> d < clock (run es (step e b)))"
    using Cons.IH [of "step e b"] by blast
  have 1: "delivered (run (e # es) b) i = delivered b i @ (ys @ zs)"
    using ys(1) zs(1) by simp
  have 2: "\<forall>p. Reply p \<in> set (ys @ zs) \<longrightarrow> Incoming i p \<in> set (e # es)"
    using ys(2) zs(2) by auto
  have 3: "TransportClosed \<in> set (ys @ zs) \<longrightarrow> Exit \<in> set (e # es)"
    using ys(3) zs(3) by auto
  have 4: "i < nextId b \<longrightarrow> Timeout \<in> set (ys @ zs) \<longrightarrow>
       (\<exists>d. pending b i = Some d \<and> d < clock (run (e # es) b))"
  proof (intro impI)
    assume lt: "i < nextId b" and t: "Timeout \<in> set (ys @ zs)"
    have lt': "i < nextId (step e b)"
      using lt nextId_step [of b e] by simp
    from t consider "Timeout \<in> set ys" | "Timeout \<in> set zs" by auto
    then show "\<exists>d. pending b i = Some d \<and> d < clock (run (e # es) b)"
    proof cases
      case 1
      then obtain d where "pending b i = Some d" "d < clock (step e b)"
        using ys(4) by blast
      then show ?thesis
        using clock_run [of es "step e b"] by auto
    next
      case 2
      then obtain d where d: "pending (step e b) i = Some d" "d < clock (run es (step e b))"
        using zs(4) lt' by blast
      have "pending b i = Some d"
        by (rule pending_step_old [OF lt d(1)])
      then show ?thesis using d(2) by simp
    qed
  qed
  from 1 2 3 4 show ?case by blast
qed

text \<open>Once a caller has its outcome, nothing that happens later changes it.\<close>

lemma delivered_stable:
  assumes "bridge_inv b" and "delivered b i = [x]"
  shows "delivered (run es b) i = [x]"
proof -
  have "pending b i = None"
    using bridge_inv_pending [OF assms(1), of i] assms(2) by (cases "pending b i") auto
  moreover have lt: "i < nextId b"
    using bridge_inv_unissued [OF assms(1), of i] assms(2) by auto
  ultimately have "pending (run es b) i = None"
    using pending_run_old [OF lt, of es] by (cases "pending (run es b) i") auto
  moreover have "i < nextId (run es b)"
    using lt nextId_run [of b es] by simp
  ultimately obtain y where y: "delivered (run es b) i = [y]"
    using bridge_inv_done [OF bridge_inv_run [OF assms(1)]] by blast
  obtain ys where "delivered (run es b) i = delivered b i @ ys"
    using delivered_run [of es b i] by blast
  with y assms(2) show ?thesis by simp
qed

text \<open>
  C1. Take a Bridge in any state it can reach and a request sent through it with
  timeout \<open>t\<close>, which is assigned the identifier \<open>i\<close>. Whatever happens afterwards
  (the events \<open>es\<close>), the caller is in one of two situations. Either the request is
  still outstanding: the caller has been handed nothing, no more than \<open>t\<close> units of
  time have elapsed and the transport has not been closed. Or the request is no longer
  outstanding and the caller has been handed exactly one outcome, which nothing that
  happens later changes: a reply that came in carrying the identifier \<open>i\<close>, or
  \<open>Timeout\<close> after more than \<open>t\<close> units of time, or \<open>TransportClosed\<close> after an
  exit. So a caller never has both a reply and an error, and it has its outcome as soon
  as its deadline has passed or the transport is closed.
\<close>

theorem request_exactly_one_outcome:
  assumes "connected (run es0 newBridge)"
    and "i = nextId (run es0 newBridge)"
    and "b = run es (request t (run es0 newBridge))"
  shows "(pending b i \<noteq> None \<and> delivered b i = [] \<and> elapsed es \<le> t \<and> Exit \<notin> set es)
     \<or> (pending b i = None
        \<and> (\<exists>x. delivered b i = [x]
              \<and> ((\<exists>p. x = Reply p \<and> Incoming i p \<in> set es)
                  \<or> (x = Timeout \<and> t < elapsed es)
                  \<or> (x = TransportClosed \<and> Exit \<in> set es))
              \<and> (\<forall>es'. delivered (run es' b) i = [x])))"
proof -
  let ?b0 = "run es0 (newBridge :: 'a bridge)"
  let ?b1 = "request t ?b0"
  have inv0: "bridge_inv ?b0"
    by (rule bridge_inv_run [OF bridge_inv_new])
  have fresh: "pending ?b0 i = None" "delivered ?b0 i = []"
    using bridge_inv_unissued [OF inv0, of i] assms(2) by simp_all
  have b1: "?b1 = ?b0\<lparr>pending := (pending ?b0)(i \<mapsto> clock ?b0 + t), nextId := Suc i\<rparr>"
    using assms(1) assms(2) fresh(1) by (simp add: request_def register_def)
  have inv1: "bridge_inv ?b1"
    by (rule bridge_inv_request [OF inv0])
  have p1: "pending ?b1 i = Some (clock ?b0 + t)" and lt1: "i < nextId ?b1"
    and c1: "clock ?b1 = clock ?b0" and d1: "delivered ?b1 i = []"
    using fresh(2) by (simp_all add: b1)
  have inv: "bridge_inv b"
    unfolding assms(3) by (rule bridge_inv_run [OF inv1])
  have clk: "clock b = clock ?b0 + elapsed es"
    unfolding assms(3) using clock_run [of es ?b1] c1 by simp
  have lt: "i < nextId b"
    unfolding assms(3) using lt1 nextId_run [of ?b1 es] by simp
  show ?thesis
  proof (cases "pending b i")
    case (Some d)
    have "pending ?b1 i = Some d"
      using pending_run_old [OF lt1, of es d] Some by (simp add: assms(3))
    then have d: "d = clock ?b0 + t"
      using p1 by simp
    have "delivered b i = []" "clock b \<le> d"
      using bridge_inv_pending [OF inv Some] by simp_all
    moreover have "Exit \<notin> set es"
      using pending_after_Exit [OF _ lt1, of es] Some by (auto simp: assms(3))
    ultimately show ?thesis
      using Some d clk by simp
  next
    case None
    obtain x where x: "delivered b i = [x]"
      using bridge_inv_done [OF inv None lt] by blast
    obtain ys where ys: "delivered b i = delivered ?b1 i @ ys"
      "\<forall>p. Reply p \<in> set ys \<longrightarrow> Incoming i p \<in> set es"
      "TransportClosed \<in> set ys \<longrightarrow> Exit \<in> set es"
      "i < nextId ?b1 \<longrightarrow> Timeout \<in> set ys \<longrightarrow> (\<exists>d. pending ?b1 i = Some d \<and> d < clock b)"
      using delivered_run [of es ?b1 i] by (auto simp: assms(3))
    have yx: "ys = [x]"
      using ys(1) x d1 by simp
    have kind: "(\<exists>p. x = Reply p \<and> Incoming i p \<in> set es)
        \<or> (x = Timeout \<and> t < elapsed es)
        \<or> (x = TransportClosed \<and> Exit \<in> set es)"
    proof (cases x)
      case (Reply p)
      then show ?thesis using ys(2) yx by simp
    next
      case Timeout
      then obtain d where "pending ?b1 i = Some d" "d < clock b"
        using ys(4) yx lt1 by auto
      then have "t < elapsed es"
        using p1 clk by simp
      then show ?thesis using Timeout by simp
    next
      case TransportClosed
      then show ?thesis using ys(3) yx by simp
    qed
    have "\<forall>es'. delivered (run es' b) i = [x]"
      using delivered_stable [OF inv x] by blast
    then show ?thesis
      using None x kind by blast
  qed
qed

theorem request_exactly_one_outcome_witness:
  "connected (run exampleHistory newBridge)
   \<and> nextId (run exampleHistory newBridge) = 1
   \<and> pending (run exampleSilence (request 2 (run exampleHistory newBridge))) 1 = None
   \<and> delivered (run exampleSilence (request 2 (run exampleHistory newBridge))) 1 = [Timeout]
   \<and> pending (run exampleAnswer (request 2 (run exampleHistory newBridge))) 1 = None
   \<and> delivered (run exampleAnswer (request 2 (run exampleHistory newBridge))) 1 = [Reply ''yes'']"
proof -
  have a: "connected (run exampleHistory newBridge)"
    by (simp add: exampleHistory_def newBridge_def request_def register_def complete_entry_def)
  have i: "1 = nextId (run exampleHistory newBridge)"
    by (simp add: exampleHistory_def newBridge_def request_def register_def complete_entry_def)
  have p: "pending (run exampleSilence (request 2 (run exampleHistory newBridge))) 1 = None"
    by (simp add: exampleHistory_def exampleSilence_def newBridge_def request_def register_def
        complete_entry_def expire_def)
  have q: "pending (run exampleAnswer (request 2 (run exampleHistory newBridge))) 1 = None"
    by (simp add: exampleHistory_def exampleAnswer_def newBridge_def request_def register_def
        complete_entry_def expire_def cancelAll_def)
  have 1: "delivered (run exampleSilence (request 2 (run exampleHistory newBridge))) 1 = [Timeout]"
    by (simp add: exampleHistory_def exampleSilence_def newBridge_def request_def register_def
        complete_entry_def expire_def)
  have 2: "delivered (run exampleAnswer (request 2 (run exampleHistory newBridge))) 1 = [Reply ''yes'']"
    by (simp add: exampleHistory_def exampleAnswer_def newBridge_def request_def register_def
        complete_entry_def expire_def cancelAll_def)
  note t = request_exactly_one_outcome [OF a i refl]
  have "Incoming 1 ''yes'' \<in> set exampleAnswer"
    using t [of exampleAnswer 2] q 2 by simp
  moreover have "2 < elapsed exampleSilence"
    using t [of exampleSilence 2] p 1 by simp
  ultimately show ?thesis using a i p q 1 2 by simp
qed

section \<open>Properties of progress rendering\<close>

lemma clampProgress_range:
  "0 \<le> tot \<Longrightarrow> 0 \<le> clampProgress v tot \<and> clampProgress v tot \<le> tot"
  by (simp add: clampProgress_def)

lemma clampProgress_over: "0 \<le> tot \<Longrightarrow> tot < v \<Longrightarrow> clampProgress v tot = tot"
  by (simp add: clampProgress_def)

lemma clampProgress_under: "0 \<le> tot \<Longrightarrow> v < 0 \<Longrightarrow> clampProgress v tot = 0"
  by (simp add: clampProgress_def)

lemma clampProgress_within: "0 \<le> v \<Longrightarrow> v \<le> tot \<Longrightarrow> clampProgress v tot = v"
  by (simp add: clampProgress_def)

lemma percent_range:
  fixes v tot :: int
  assumes "0 < tot" and "0 \<le> v" and "v \<le> tot"
  shows "0 \<le> v * 100 div tot \<and> v * 100 div tot \<le> 100"
proof
  show "0 \<le> v * 100 div tot"
    using assms by (simp add: pos_imp_zdiv_nonneg_iff)
  have "v * 100 div tot \<le> tot * 100 div tot"
    using assms by (intro zdiv_mono1) simp_all
  then show "v * 100 div tot \<le> 100"
    using assms(1) by simp
qed

lemma renderProgress_positive:
  assumes "0 < pp_total p"
  shows "renderProgress p =
     Inr (Bar (clampProgress (pp_current p) (pp_total p))
              (clampProgress (pp_current p) (pp_total p) * 100 div pp_total p))"
  using assms by (simp add: renderProgress_def percentage_def Let_def)

text \<open>
  C6. Rendering a progress payload never fails with a division by zero. A payload
  with total 0 is rendered as indeterminate progress. For a positive total the value
  shown is the current value clamped to the interval from 0 to the total: 0 when the
  current value is negative, the current value itself when it lies in the interval,
  and the total, at 100 percent, when the current value exceeds the total. The
  percentage shown is that of the clamped value and lies between 0 and 100.
\<close>

theorem progress_clamped:
  "(\<exists>f. renderProgress p = Inr f)
   \<and> (pp_total p = 0 \<longrightarrow> renderProgress p = Inr Indeterminate)
   \<and> (0 < pp_total p \<longrightarrow>
        (\<exists>v pc. renderProgress p = Inr (Bar v pc)
           \<and> 0 \<le> v \<and> v \<le> pp_total p \<and> 0 \<le> pc \<and> pc \<le> 100
           \<and> pc = v * 100 div pp_total p
           \<and> (pp_current p < 0 \<longrightarrow> v = 0)
           \<and> (0 \<le> pp_current p \<and> pp_current p \<le> pp_total p \<longrightarrow> v = pp_current p)
           \<and> (pp_total p < pp_current p \<longrightarrow> v = pp_total p)))
   \<and> (0 < pp_total p \<and> pp_total p < pp_current p \<longrightarrow>
        renderProgress p = Inr (Bar (pp_total p) 100))"
proof (intro conjI impI)
  show "\<exists>f. renderProgress p = Inr f"
    by (simp add: renderProgress_def percentage_def Let_def)
next
  assume "pp_total p = 0"
  then show "renderProgress p = Inr Indeterminate"
    by (simp add: renderProgress_def)
next
  assume pos: "0 < pp_total p"
  let ?v = "clampProgress (pp_current p) (pp_total p)"
  have r: "0 \<le> ?v \<and> ?v \<le> pp_total p"
    using pos clampProgress_range [of "pp_total p" "pp_current p"] by simp
  have e: "renderProgress p = Inr (Bar ?v (?v * 100 div pp_total p))"
    by (rule renderProgress_positive [OF pos])
  have pc: "0 \<le> ?v * 100 div pp_total p \<and> ?v * 100 div pp_total p \<le> 100"
    using percent_range [OF pos] r by simp
  have u: "pp_current p < 0 \<longrightarrow> ?v = 0"
    using pos clampProgress_under [of "pp_total p" "pp_current p"] by simp
  have w: "0 \<le> pp_current p \<and> pp_current p \<le> pp_total p \<longrightarrow> ?v = pp_current p"
    using clampProgress_within [of "pp_current p" "pp_total p"] by simp
  have o: "pp_total p < pp_current p \<longrightarrow> ?v = pp_total p"
    using pos clampProgress_over [of "pp_total p" "pp_current p"] by simp
  show "\<exists>v pc. renderProgress p = Inr (Bar v pc)
           \<and> 0 \<le> v \<and> v \<le> pp_total p \<and> 0 \<le> pc \<and> pc \<le> 100
           \<and> pc = v * 100 div pp_total p
           \<and> (pp_current p < 0 \<longrightarrow> v = 0)
           \<and> (0 \<le> pp_current p \<and> pp_current p \<le> pp_total p \<longrightarrow> v = pp_current p)
           \<and> (pp_total p < pp_current p \<longrightarrow> v = pp_total p)"
    using e r pc u w o by blast
next
  assume a: "0 < pp_total p \<and> pp_total p < pp_current p"
  then have "clampProgress (pp_current p) (pp_total p) = pp_total p"
    using clampProgress_over [of "pp_total p" "pp_current p"] by simp
  then show "renderProgress p = Inr (Bar (pp_total p) 100)"
    using a renderProgress_positive [of p] by simp
qed

theorem progress_clamped_witness:
  "renderProgress \<lparr>pp_current = 7, pp_total = 0\<rparr> = Inr Indeterminate
   \<and> renderProgress \<lparr>pp_current = 150, pp_total = 100\<rparr> = Inr (Bar 100 100)
   \<and> renderProgress \<lparr>pp_current = - 3, pp_total = 8\<rparr> = Inr (Bar 0 0)
   \<and> renderProgress \<lparr>pp_current = 3, pp_total = 8\<rparr> = Inr (Bar 3 37)"
proof -
  have 1: "renderProgress \<lparr>pp_current = 7, pp_total = 0\<rparr> = Inr Indeterminate"
    using progress_clamped [of "\<lparr>pp_current = 7, pp_total = 0\<rparr>"] by simp
  have 2: "renderProgress \<lparr>pp_current = 150, pp_total = 100\<rparr> = Inr (Bar 100 100)"
    using progress_clamped [of "\<lparr>pp_current = 150, pp_total = 100\<rparr>"] by simp
  have 3: "renderProgress \<lparr>pp_current = - 3, pp_total = 8\<rparr> = Inr (Bar 0 0)"
    using progress_clamped [of "\<lparr>pp_current = - 3, pp_total = 8\<rparr>"] by auto
  have 4: "renderProgress \<lparr>pp_current = 3, pp_total = 8\<rparr> = Inr (Bar 3 37)"
    using progress_clamped [of "\<lparr>pp_current = 3, pp_total = 8\<rparr>"] by auto
  from 1 2 3 4 show ?thesis by simp
qed

end
